theory Spec2Isabelle
  imports Complex_Main "HOL-Library.AList" "HOL-Library.Log_Nat"
begin

section \<open>The stores of the bot\<close>

text \<open>
  The bot keeps its sessions in process-wide dictionaries (\<open>context.bot_data\<close>), its
  per-user dialogue state in \<open>context.user_data\<close> and the balances in the table
  \<open>users\<close> of an SQLite database. The model below is a record of these stores; every
  handler is a function from the incoming update and the store to a reply and the new
  store.

  User, chat and message ids are Python ints.
\<close>

section \<open>Python floats\<close>

text \<open>
  The amounts of money are Python floats: the wager is \<open>float(args[0])\<close>
  (\<open>darts.py\<close> line 161), the prize is \<open>bet * 1.92\<close> (line 49), and the balances
  are what the games compute from them. A finite float is modelled by the rational
  number that it denotes. An arithmetic operation on floats gives the exact result
  rounded to the nearest number with a significand of 53 bits, a tie going to the even
  significand (IEEE 754 binary64, which Python's float is). Comparisons of floats are
  comparisons of the numbers. Overflow, the infinities, NaN and the subnormal range are
  outside the model.

  \<open>ilog2 a\<close> is the exponent \<open>e\<close> with \<open>2 ^ e \<le> a < 2 ^ (e + 1)\<close>, for \<open>a > 0\<close>.
\<close>

definition ilog2 :: "rat \<Rightarrow> int" where
  "ilog2 a = (if a \<ge> 1 then bitlen \<lfloor>a\<rfloor> - 1 else - bitlen (\<lceil>1 / a\<rceil> - 1))"

definition round_half_even :: "rat \<Rightarrow> int" where
  "round_half_even t =
     (let f = \<lfloor>t\<rfloor>; d = t - of_int f
      in if d < 1 / 2 then f else if d > 1 / 2 then f + 1
         else if even f then f else f + 1)"

definition float_round :: "rat \<Rightarrow> rat" where
  "float_round x =
     (if x = 0 then 0
      else (let u = 2 powi (ilog2 \<bar>x\<bar> - 52)
            in sgn x * (of_int (round_half_even (\<bar>x\<bar> / u)) * u)))"

text \<open>Python's \<open>x + y\<close>, \<open>x - y\<close> and \<open>x * y\<close> on floats.\<close>

definition float_add :: "rat \<Rightarrow> rat \<Rightarrow> rat" where
  "float_add x y = float_round (x + y)"

definition float_sub :: "rat \<Rightarrow> rat \<Rightarrow> rat" where
  "float_sub x y = float_round (x - y)"

definition float_mul :: "rat \<Rightarrow> rat \<Rightarrow> rat" where
  "float_mul x y = float_round (x * y)"

text \<open>The literal \<open>1.92\<close>: the float nearest to 192/100.\<close>

definition float_1_92 :: rat where
  "float_1_92 = float_round (192 / 100)"

section \<open>Data model\<close>

text \<open>The ids and the records of the dictionaries.\<close>

type_synonym user_id = int
type_synonym chat_id = int
type_synonym message_ref = int

text \<open>\<open>game['player2']\<close> is either a user id or the string \<open>'bot'\<close>.\<close>

datatype player = User user_id | Bot

text \<open>The keys \<open>'player1'\<close> and \<open>'player2'\<close> of the dictionaries inside a game.\<close>

datatype slot = Player1 | Player2

text \<open>
  A game key is the tuple \<open>(chat_id, user_id, 'bot')\<close> or
  \<open>(chat_id, initiator, user_id)\<close>.
\<close>

type_synonym game_key = "chat_id \<times> user_id \<times> player"

record game =
  player1 :: user_id
  player2 :: player
  mode :: string
  points_to_win :: int
  bet :: rat
  scores :: "slot \<Rightarrow> int"
  current_player :: slot
  rolls :: "slot \<Rightarrow> int list"
  rolls_needed :: int
  roll_count :: "slot \<Rightarrow> int"
  round_number :: int
  message_id :: "message_ref option"

text \<open>An entry of \<open>bot_data['last_games'][chat_id][user_id]\<close>.\<close>

record last_game =
  lg_opponent :: player
  lg_mode :: string
  lg_points_to_win :: int
  lg_bet :: rat

text \<open>An entry of \<open>bot_data['pending_challenges']\<close>.\<close>

record challenge =
  ch_initiator :: user_id
  ch_challenged :: user_id
  ch_mode :: string
  ch_points_to_win :: int
  ch_bet :: rat

text \<open>
  \<open>user_data['dart_setup']\<close> and \<open>user_data['football_setup']\<close>. The key \<open>'state'\<close> is
  written but never read, so it is left out.
\<close>

record game_setup =
  su_initiator :: user_id
  su_bet :: rat
  su_message_id :: "message_ref option"

text \<open>
  \<open>user_data['coin_setup']\<close>: the full setup dictionary while a coin game is being set
  up, and the dictionary \<open>{'bet': bet}\<close> (no initiator, no message id) after a flip.
\<close>

record coin_setup_rec =
  cs_initiator :: "user_id option"
  cs_bet :: rat
  cs_message_id :: "message_ref option"
  cs_choice :: "string option"

text \<open>An entry of \<open>bot_data['coin_games']\<close>.\<close>

record coin_game =
  cg_bet :: rat
  cg_choice :: string
  cg_match_message_id :: message_ref

text \<open>The keys of one user's \<open>context.user_data\<close> that the three games touch.\<close>

record user_data_rec =
  dart_setup :: "game_setup option"
  dart_mode :: "string option"
  dart_points :: "int option"
  football_setup :: "game_setup option"
  football_mode :: "string option"
  football_points :: "int option"
  expecting_username :: bool
  dice_setup :: "game_setup option"
  coin_setup :: "coin_setup_rec option"

text \<open>
  The whole store. \<open>users\<close> is the table of balances; \<open>games\<close>, \<open>user_games\<close>,
  \<open>last_games\<close>, \<open>pending_challenges\<close> and \<open>coin_games\<close> are the dictionaries of
  \<open>bot_data\<close>. \<open>darts.py\<close> and \<open>football.py\<close> use the same dictionaries
  \<open>'games'\<close>, \<open>'user_games'\<close>, \<open>'last_games'\<close> and \<open>'pending_challenges'\<close>;
  \<open>coin.py\<close> uses \<open>'coin_games'\<close> only. The nested dictionary \<open>last_games\<close> is keyed
  by the pair (chat, user). \<open>pending_challenges\<close> is an association list in insertion
  order, because the code takes its length. \<open>coin_games\<close> is \<open>None\<close> while the key is
  absent from \<open>bot_data\<close> (the flip handler indexes it without a default).
\<close>

record store =
  users :: "user_id \<rightharpoonup> rat"
  games :: "game_key \<rightharpoonup> game"
  user_games :: "(chat_id \<times> user_id) \<rightharpoonup> game_key"
  last_games :: "(chat_id \<times> user_id) \<rightharpoonup> last_game"
  pending_challenges :: "(int \<times> challenge) list"
  coin_games :: "((chat_id \<times> user_id) \<rightharpoonup> coin_game) option"
  user_data :: "user_id \<Rightarrow> user_data_rec"

text \<open>Python exceptions that the modelled branches can raise.\<close>

datatype error = KeyError | IndexError | TypeError

text \<open>
  What a handler tells the chat. One constructor per message text or callback answer of
  the source; \<open>Silent\<close> is a return without any message. The two outcome messages of
  the coin flip carry the side that the coin landed on.
\<close>

datatype reply =
    Already_in_game | Match_started | Rolls_incomplete | Round_results | Game_over
  | Please_register | Invalid_bet | Insufficient_balance | Choose_mode
  | Not_your_setup | Mode_guide | Setup_cancelled | Choose_points | Confirmation
  | Choose_opponent | Enter_username | Silent
  | No_active_game | Game_data_missing | Not_current_message | Old_message
  | Game_already_ended
  | Previous_round | Not_your_turn | Throw_failed | Throw_again | Your_turn
  | Challenge_no_longer_valid | One_of_you_in_game | Challenge_declined
  | No_previous_game | Opponent_in_game | Challenge_sent | Doubled_bet_too_high
  | Invalid_username | User_not_found | Cannot_challenge_yourself | Opponent_underfunded
  | Choose_side | Flip_prompt | Old_game_button | Coin_won string | Coin_lost string
  | No_active_game_or_setup

type_synonym result = "error + reply \<times> store"

section \<open>The balance ledger\<close>

text \<open>
  Modelled from the spec: the module \<open>database\<close>, from which \<open>darts.py\<close>,
  \<open>football.py\<close> and \<open>coin.py\<close> import \<open>user_exists\<close>, \<open>get_user_balance\<close> and
  \<open>update_user_balance\<close>, is not among the sources. The specification describes it
  as the BalanceLedger, an external collaborator that reads a participant's balance and
  changes it, one call at a time. The games call \<open>get_user_balance(user)\<close> and
  \<open>update_user_balance(user, new_balance)\<close>, the second with the new balance that
  they have computed (\<open>darts.py\<close> lines 51 and 132). The model keeps one balance per
  registered user. The balances are floats, as the numbers are that the games compute
  from them and write back. (\<open>main.py\<close> defines functions of the same names for its
  own commands, lines 63-80, over \<open>Decimal\<close>; the games do not import those, and a
  \<open>Decimal\<close> could not be added to the float wager.) The specification's ledger
  fails for a participant without an account. The games call it for registered users;
  for a user without an account the model reads the balance 0 and changes nothing, as
  the functions of \<open>main.py\<close> do for a missing row. The statements about amounts
  below are about users with an account.
\<close>

definition user_exists :: "user_id \<Rightarrow> store \<Rightarrow> bool" where
  "user_exists u s = (users s u \<noteq> None)"

text \<open>Modelled from the spec: the ledger's read of a balance.\<close>

definition get_user_balance :: "user_id \<Rightarrow> store \<Rightarrow> rat" where
  "get_user_balance u s = (case users s u of Some b \<Rightarrow> b | None \<Rightarrow> 0)"

text \<open>Modelled from the spec: the ledger's write of a balance.\<close>

definition update_user_balance :: "user_id \<Rightarrow> rat \<Rightarrow> store \<Rightarrow> store" where
  "update_user_balance u b s =
     (if users s u \<noteq> None then s\<lparr>users := (users s)(u \<mapsto> b)\<rparr> else s)"

section \<open>Darts: round evaluation\<close>

text \<open>
  \<open>darts.py\<close>, lines 22-27: the scores of a round. \<open>rolls[0]\<close> of an empty list raises
  IndexError; every mode other than \<open>'normal'\<close> and \<open>'double'\<close> takes the last branch.
\<close>

definition first_roll :: "int list \<Rightarrow> error + int" where
  "first_roll rs = (case rs of [] \<Rightarrow> Inl IndexError | r # _ \<Rightarrow> Inr r)"

definition dart_round_scores :: "string \<Rightarrow> int list \<Rightarrow> int list \<Rightarrow> error + int \<times> int" where
  "dart_round_scores m rolls1 rolls2 =
     (if m = ''normal'' then
        (case first_roll rolls1 of Inl e \<Rightarrow> Inl e | Inr a \<Rightarrow>
          (case first_roll rolls2 of Inl e \<Rightarrow> Inl e | Inr b \<Rightarrow> Inr (a, b)))
      else if m = ''double'' then Inr (sum_list rolls1, sum_list rolls2)
      else
        (case first_roll rolls1 of Inl e \<Rightarrow> Inl e | Inr a \<Rightarrow>
          (case first_roll rolls2 of Inl e \<Rightarrow> Inl e | Inr b \<Rightarrow> Inr (7 - a, 7 - b))))"

text \<open>Lines 29-32: the round's winner gets one point; equal scores give none.\<close>

definition award :: "int \<Rightarrow> int \<Rightarrow> game \<Rightarrow> game" where
  "award score1 score2 g =
     (if score1 > score2 then g\<lparr>scores := (scores g)(Player1 := scores g Player1 + 1)\<rparr>
      else if score2 > score1 then g\<lparr>scores := (scores g)(Player2 := scores g Player2 + 1)\<rparr>
      else g)"

text \<open>
  Lines 17-19 (and 96-98): the buffers, the counts and the turn are reset.
\<close>

definition reset_round :: "game \<Rightarrow> game" where
  "reset_round g =
     g\<lparr>rolls := (\<lambda>_. []), roll_count := (\<lambda>_. 0), current_player := Player1\<rparr>"

text \<open>\<open>game[winner]\<close> for \<open>winner\<close> one of \<open>'player1'\<close>, \<open>'player2'\<close>.\<close>

definition player_of :: "game \<Rightarrow> slot \<Rightarrow> player" where
  "player_of g sl = (case sl of Player1 \<Rightarrow> User (player1 g) | Player2 \<Rightarrow> player2 g)"

definition match_over :: "game \<Rightarrow> bool" where
  "match_over g = (max (scores g Player1) (scores g Player2) \<ge> points_to_win g)"

text \<open>
  Lines 47-51: the winner and the credit. The prize is \<open>bet * 1.92\<close>; the new balance
  is \<open>get_user_balance(winner_id) + prize + game['bet']\<close>, added from left to right.
\<close>

definition winner_slot :: "game \<Rightarrow> slot" where
  "winner_slot g = (if scores g Player1 > scores g Player2 then Player1 else Player2)"

definition prize :: "game \<Rightarrow> rat" where
  "prize g = float_mul (bet g) float_1_92"

definition pay_winner :: "game \<Rightarrow> store \<Rightarrow> store" where
  "pay_winner g s =
     (case player_of g (winner_slot g) of
        Bot \<Rightarrow> s
      | User w \<Rightarrow>
          update_user_balance w
            (float_add (float_add (get_user_balance w s) (prize g)) (bet g)) s)"

text \<open>Lines 68-90: the summary of the finished game, for every human player.\<close>

definition record_last_games :: "game \<Rightarrow> chat_id \<Rightarrow> store \<Rightarrow> store" where
  "record_last_games g chat s =
     (case player2 g of
        User p2 \<Rightarrow>
          s\<lparr>last_games := (last_games s)
              ((chat, player1 g) \<mapsto>
                 \<lparr>lg_opponent = User p2, lg_mode = mode g,
                  lg_points_to_win = points_to_win g, lg_bet = bet g\<rparr>,
               (chat, p2) \<mapsto>
                 \<lparr>lg_opponent = User (player1 g), lg_mode = mode g,
                  lg_points_to_win = points_to_win g, lg_bet = bet g\<rparr>)\<rparr>
      | Bot \<Rightarrow>
          s\<lparr>last_games := (last_games s)
              ((chat, player1 g) \<mapsto>
                 \<lparr>lg_opponent = Bot, lg_mode = mode g,
                  lg_points_to_win = points_to_win g, lg_bet = bet g\<rparr>)\<rparr>)"

text \<open>
  Lines 91-94: the three \<open>del\<close> statements, in the source's order. Deleting a key that
  is not there raises KeyError.
\<close>

definition del_user_game :: "chat_id \<times> user_id \<Rightarrow> store \<Rightarrow> error + store" where
  "del_user_game k s =
     (if user_games s k = None then Inl KeyError
      else Inr (s\<lparr>user_games := (user_games s)(k := None)\<rparr>))"

definition del_game :: "game_key \<Rightarrow> store \<Rightarrow> error + store" where
  "del_game k s =
     (if games s k = None then Inl KeyError
      else Inr (s\<lparr>games := (games s)(k := None)\<rparr>))"

definition release :: "game \<Rightarrow> chat_id \<Rightarrow> game_key \<Rightarrow> store \<Rightarrow> error + store" where
  "release g chat k s =
     (case (case player2 g of
              User p2 \<Rightarrow> del_user_game (chat, p2) s
            | Bot \<Rightarrow> Inr s) of
        Inl e \<Rightarrow> Inl e
      | Inr s1 \<Rightarrow>
          (case del_user_game (chat, player1 g) s1 of
             Inl e \<Rightarrow> Inl e
           | Inr s2 \<Rightarrow> del_game k s2))"

text \<open>Lines 46-94: the match is over.\<close>

definition finish_match :: "game \<Rightarrow> chat_id \<Rightarrow> game_key \<Rightarrow> store \<Rightarrow> result" where
  "finish_match g chat k s =
     (case release g chat k (record_last_games g chat (pay_winner g s)) of
        Inl e \<Rightarrow> Inl e
      | Inr s' \<Rightarrow> Inr (Game_over, s'))"

text \<open>
  Lines 95-104: the next round. \<open>new_mid\<close> is the id of the message that
  \<open>send_with_retry\<close> returns.
\<close>

definition next_round :: "game \<Rightarrow> game_key \<Rightarrow> message_ref \<Rightarrow> store \<Rightarrow> result" where
  "next_round g k new_mid s =
     Inr (Round_results,
          s\<lparr>games := (games s)
              (k \<mapsto> (reset_round g)\<lparr>round_number := round_number g + 1,
                                     message_id := Some new_mid\<rparr>)\<rparr>)"

text \<open>
  \<open>evaluate_round(game, chat_id, game_key, context)\<close>, \<open>darts.py\<close> lines 9-104. The
  dictionary \<open>game\<close> is the object stored under \<open>game_key\<close>: the handler reads it from
  \<open>bot_data['games']\<close> just before the call, so a mutation of \<open>game\<close> is a mutation of
  that entry, and the model writes the changed game back under the key. The match-end
  branch works on the game with the updated score, and the updated game is still in
  \<open>games\<close> when the entry is deleted.
\<close>

definition store_game :: "game_key \<Rightarrow> game \<Rightarrow> store \<Rightarrow> store" where
  "store_game k g s = s\<lparr>games := (games s)(k \<mapsto> g)\<rparr>"

definition evaluate_round :: "game \<Rightarrow> chat_id \<Rightarrow> game_key \<Rightarrow> message_ref \<Rightarrow> store \<Rightarrow> result" where
  "evaluate_round g chat k new_mid s =
     (if int (length (rolls g Player1)) < rolls_needed g
         \<or> int (length (rolls g Player2)) < rolls_needed g
      then Inr (Rolls_incomplete, store_game k (reset_round g) s)
      else
        (case dart_round_scores (mode g) (rolls g Player1) (rolls g Player2) of
           Inl e \<Rightarrow> Inl e
         | Inr (score1, score2) \<Rightarrow>
             (let g' = award score1 score2 g in
              if match_over g' then finish_match g' chat k (store_game k g' s)
              else next_round g' k new_mid s)))"

section \<open>Darts: starting a match against the bot\<close>

text \<open>A fresh game dictionary (\<open>darts.py\<close> lines 116-129 and 392-405).\<close>

definition new_game :: "user_id \<Rightarrow> player \<Rightarrow> string \<Rightarrow> int \<Rightarrow> rat \<Rightarrow> game" where
  "new_game p1 p2 m pts b =
     \<lparr>player1 = p1, player2 = p2, mode = m, points_to_win = pts, bet = b,
      scores = (\<lambda>_. 0), current_player = Player1, rolls = (\<lambda>_. []),
      rolls_needed = (if m = ''double'' then 2 else 1), roll_count = (\<lambda>_. 0),
      round_number = 1, message_id = None\<rparr>"

definition map_user_data :: "user_id \<Rightarrow> (user_data_rec \<Rightarrow> user_data_rec) \<Rightarrow> store \<Rightarrow> store" where
  "map_user_data u f s = s\<lparr>user_data := (user_data s)(u := f (user_data s u))\<rparr>"

text \<open>
  \<open>start_game_against_bot(context, chat_id, user_id)\<close>, \<open>darts.py\<close> lines 107-144.
  \<open>context.user_data\<close> is the dictionary of the user whose update is handled. An absent
  \<open>dart_setup\<close> reads as \<open>{}\<close>, and \<open>setup['bet']\<close> then raises KeyError. The order of
  the source is kept: the game is registered, then the balance is debited, then the
  message id is stored, then the setup is cleared.
\<close>

definition start_game_against_bot :: "chat_id \<Rightarrow> user_id \<Rightarrow> message_ref \<Rightarrow> store \<Rightarrow> result" where
  "start_game_against_bot chat u new_mid s =
     (if user_games s (chat, u) \<noteq> None then Inr (Already_in_game, s)
      else
        (case dart_setup (user_data s u) of
           None \<Rightarrow> Inl KeyError
         | Some su \<Rightarrow>
             (case dart_mode (user_data s u) of
                None \<Rightarrow> Inl KeyError
              | Some m \<Rightarrow>
                  (case dart_points (user_data s u) of
                     None \<Rightarrow> Inl KeyError
                   | Some pts \<Rightarrow>
                       (let k = (chat, u, Bot);
                            g = new_game u Bot m pts (su_bet su);
                            s1 = s\<lparr>games := (games s)(k \<mapsto> g)\<rparr>;
                            s2 = s1\<lparr>user_games := (user_games s1)((chat, u) \<mapsto> k)\<rparr>;
                            s3 = update_user_balance u
                                   (float_sub (get_user_balance u s2) (su_bet su)) s2;
                            s4 = store_game k (g\<lparr>message_id := Some new_mid\<rparr>) s3;
                            s5 = map_user_data u (\<lambda>d. d\<lparr>dart_setup := None\<rparr>) s4
                        in Inr (Match_started, s5))))))"

text \<open>
  \<open>dart_command(update, context)\<close>, lines 147-192, for a command with exactly one
  argument that parses as a number (\<open>amount\<close>).
\<close>

definition dart_command :: "chat_id \<Rightarrow> user_id \<Rightarrow> rat \<Rightarrow> message_ref \<Rightarrow> store \<Rightarrow> result" where
  "dart_command chat u amount new_mid s =
     (if \<not> user_exists u s then Inr (Please_register, s)
      else if amount \<le> 0 then Inr (Invalid_bet, s)
      else if amount > get_user_balance u s then Inr (Insufficient_balance, s)
      else if user_games s (chat, u) \<noteq> None then Inr (Already_in_game, s)
      else Inr (Choose_mode,
             map_user_data u
               (\<lambda>d. d\<lparr>dart_setup :=
                   Some \<lparr>su_initiator = u, su_bet = amount, su_message_id = Some new_mid\<rparr>\<rparr>) s))"

section \<open>Darts: the button handler\<close>

text \<open>
  A callback query: who pressed, in which chat, on which message. The callback data is
  modelled after parsing (\<open>data.split('_')\<close>, \<open>int(...)\<close>), with the numbers the bot's
  own buttons carry.
\<close>

record callback_query =
  cq_user :: user_id
  cq_chat :: chat_id
  cq_message_id :: message_ref

datatype dart_data =
    D_mode_guide | D_back | D_cancel | D_mode string | D_points int | D_confirm_setup
  | D_challenge | D_bot | D_throw int | D_accept int | D_cancel_id int
  | D_play_again | D_double | D_other

text \<open>
  What Telegram returns during one handler run: the id of the prompt message that
  \<open>send_with_retry\<close> sends and the handler stores, the value of the player's dart
  (\<open>None\<close> when the send failed), and the values of the bot's darts in the order of the
  loop. Sends of plain text and the lookups of user names are assumed to succeed.
\<close>

record telegram_io =
  io_message_id :: message_ref
  io_dice :: "int option"
  io_bot_dice :: "nat \<Rightarrow> int option"

text \<open>Lines 360-367: the bot throws \<open>n\<close> darts; a failed send aborts the handler.\<close>

primrec bot_throws :: "(nat \<Rightarrow> int option) \<Rightarrow> nat \<Rightarrow> int list option" where
  "bot_throws f 0 = Some []"
| "bot_throws f (Suc n) =
     (case bot_throws f n of
        None \<Rightarrow> None
      | Some vs \<Rightarrow> (case f n of None \<Rightarrow> None | Some v \<Rightarrow> Some (vs @ [v])))"

definition player_key :: "game \<Rightarrow> user_id \<Rightarrow> slot option" where
  "player_key g u =
     (if player1 g = u then Some Player1
      else if player2 g = User u then Some Player2
      else None)"

definition other_player :: "slot \<Rightarrow> slot" where
  "other_player pk = (if pk = Player1 then Player2 else Player1)"

definition add_roll :: "slot \<Rightarrow> int \<Rightarrow> game \<Rightarrow> game" where
  "add_roll pk v g =
     g\<lparr>rolls := (rolls g)(pk := rolls g pk @ [v]),
       roll_count := (roll_count g)(pk := roll_count g pk + 1)\<rparr>"

definition add_bot_rolls :: "slot \<Rightarrow> int list \<Rightarrow> game \<Rightarrow> game" where
  "add_bot_rolls pk vs g =
     g\<lparr>rolls := (rolls g)(pk := rolls g pk @ vs),
       roll_count := (roll_count g)(pk := roll_count g pk + int (length vs))\<rparr>"

text \<open>Lines 344-377: a dart has been thrown with value \<open>v\<close>.\<close>

definition after_throw ::
  "game \<Rightarrow> slot \<Rightarrow> int \<Rightarrow> chat_id \<Rightarrow> game_key \<Rightarrow> telegram_io \<Rightarrow> store \<Rightarrow> result" where
  "after_throw g pk v chat k io s =
     (let g1 = add_roll pk v g in
      if roll_count g1 Player1 = rolls_needed g1 \<and> roll_count g1 Player2 = rolls_needed g1
      then evaluate_round g1 chat k (io_message_id io) (store_game k g1 s)
      else if roll_count g1 pk < rolls_needed g1
      then Inr (Throw_again, store_game k (g1\<lparr>message_id := Some (io_message_id io)\<rparr>) s)
      else
        (let other = other_player pk;
             g2 = g1\<lparr>current_player := other\<rparr>
         in if player_of g2 other = Bot
            then
              (case bot_throws (io_bot_dice io) (nat (rolls_needed g2 - roll_count g2 other)) of
                 None \<Rightarrow> Inr (Throw_failed, store_game k g2 s)
               | Some vs \<Rightarrow>
                   (let g3 = add_bot_rolls other vs g2
                    in evaluate_round g3 chat k (io_message_id io) (store_game k g3 s)))
            else Inr (Your_turn, store_game k (g2\<lparr>message_id := Some (io_message_id io)\<rparr>) s)))"

text \<open>Lines 303-343: the checks before a throw, in the source's order.\<close>

definition dart_throw :: "callback_query \<Rightarrow> int \<Rightarrow> telegram_io \<Rightarrow> store \<Rightarrow> result" where
  "dart_throw q turn_round io s =
     (case user_games s (cq_chat q, cq_user q) of
        None \<Rightarrow> Inr (No_active_game, s)
      | Some k \<Rightarrow>
          (case games s k of
             None \<Rightarrow> Inr (Game_data_missing, s)
           | Some g \<Rightarrow>
               if Some (cq_message_id q) \<noteq> message_id g then Inr (Not_current_message, s)
               else if match_over g then Inr (Game_already_ended, s)
               else
                 (case player_key g (cq_user q) of
                    None \<Rightarrow> Inr (Silent, s)
                  | Some pk \<Rightarrow>
                      if turn_round \<noteq> round_number g then Inr (Previous_round, s)
                      else if pk \<noteq> current_player g then Inr (Not_your_turn, s)
                      else
                        (case io_dice io of
                           None \<Rightarrow> Inr (Throw_failed, s)
                         | Some v \<Rightarrow> after_throw g pk v (cq_chat q) k io s))))"

text \<open>
  The length of the dictionary plus one is the id of a new challenge (lines 456, 506 and
  557); the challenge is stored under that id, replacing an entry that has it.
\<close>

definition next_game_id :: "store \<Rightarrow> int" where
  "next_game_id s = int (length (pending_challenges s)) + 1"

definition store_challenge :: "int \<Rightarrow> challenge \<Rightarrow> store \<Rightarrow> store" where
  "store_challenge gid c s =
     s\<lparr>pending_challenges := AList.update gid c (pending_challenges s)\<rparr>"

definition del_challenge :: "int \<Rightarrow> store \<Rightarrow> store" where
  "del_challenge gid s = s\<lparr>pending_challenges := AList.delete gid (pending_challenges s)\<rparr>"

text \<open>
  Lines 380-425: a challenge is accepted. \<open>context.user_data\<close> is the accepting user's,
  so it is that user's \<open>dart_setup\<close> that is deleted at the end.
\<close>

definition dart_accept :: "callback_query \<Rightarrow> int \<Rightarrow> telegram_io \<Rightarrow> store \<Rightarrow> result" where
  "dart_accept q game_id io s =
     (case map_of (pending_challenges s) game_id of
        None \<Rightarrow> Inr (Challenge_no_longer_valid, s)
      | Some c \<Rightarrow>
          if cq_user q \<noteq> ch_challenged c then Inr (Silent, s)
          else if user_games s (cq_chat q, ch_initiator c) \<noteq> None
                  \<or> user_games s (cq_chat q, cq_user q) \<noteq> None
          then Inr (One_of_you_in_game, s)
          else
            (let k = (cq_chat q, ch_initiator c, User (cq_user q));
                 g = new_game (ch_initiator c) (User (cq_user q)) (ch_mode c)
                       (ch_points_to_win c) (ch_bet c);
                 s1 = s\<lparr>games := (games s)(k \<mapsto> g)\<rparr>;
                 s2 = s1\<lparr>user_games := (user_games s1)((cq_chat q, ch_initiator c) \<mapsto> k)\<rparr>;
                 s3 = s2\<lparr>user_games := (user_games s2)((cq_chat q, cq_user q) \<mapsto> k)\<rparr>;
                 s4 = update_user_balance (ch_initiator c)
                        (float_sub (get_user_balance (ch_initiator c) s3) (ch_bet c)) s3;
                 s5 = update_user_balance (cq_user q)
                        (float_sub (get_user_balance (cq_user q) s4) (ch_bet c)) s4;
                 s6 = store_game k (g\<lparr>message_id := Some (io_message_id io)\<rparr>) s5;
                 s7 = del_challenge game_id s6;
                 s8 = map_user_data (cq_user q) (\<lambda>d. d\<lparr>dart_setup := None\<rparr>) s7
             in Inr (Match_started, s8)))"

text \<open>Lines 427-436: a challenge is declined; any user may press the button.\<close>

definition dart_decline :: "int \<Rightarrow> store \<Rightarrow> result" where
  "dart_decline game_id s =
     (case map_of (pending_challenges s) game_id of
        None \<Rightarrow> Inr (Challenge_no_longer_valid, s)
      | Some c \<Rightarrow> Inr (Challenge_declined, del_challenge game_id s))"

text \<open>Lines 438-476: play again with the parameters of the last game.\<close>

definition dart_play_again :: "callback_query \<Rightarrow> telegram_io \<Rightarrow> store \<Rightarrow> result" where
  "dart_play_again q io s =
     (case last_games s (cq_chat q, cq_user q) of
        None \<Rightarrow> Inr (No_previous_game, s)
      | Some lg \<Rightarrow>
          (case lg_opponent lg of
             Bot \<Rightarrow>
               start_game_against_bot (cq_chat q) (cq_user q) (io_message_id io)
                 (map_user_data (cq_user q)
                    (\<lambda>d. d\<lparr>dart_mode := Some (lg_mode lg),
                            dart_points := Some (lg_points_to_win lg),
                            dart_setup := Some \<lparr>su_initiator = cq_user q, su_bet = lg_bet lg,
                                                su_message_id = None\<rparr>\<rparr>) s)
           | User opponent_id \<Rightarrow>
               if user_games s (cq_chat q, opponent_id) \<noteq> None
               then Inr (Opponent_in_game, s)
               else Inr (Challenge_sent,
                      store_challenge (next_game_id s)
                        \<lparr>ch_initiator = cq_user q, ch_challenged = opponent_id,
                         ch_mode = lg_mode lg, ch_points_to_win = lg_points_to_win lg,
                         ch_bet = lg_bet lg\<rparr> s)))"

text \<open>Lines 478-527: play again for twice the bet.\<close>

definition dart_double :: "callback_query \<Rightarrow> telegram_io \<Rightarrow> store \<Rightarrow> result" where
  "dart_double q io s =
     (case last_games s (cq_chat q, cq_user q) of
        None \<Rightarrow> Inr (No_previous_game, s)
      | Some lg \<Rightarrow>
          (let new_bet = float_mul (lg_bet lg) 2 in
           case lg_opponent lg of
             Bot \<Rightarrow>
               if new_bet > get_user_balance (cq_user q) s then Inr (Insufficient_balance, s)
               else
                 start_game_against_bot (cq_chat q) (cq_user q) (io_message_id io)
                   (map_user_data (cq_user q)
                      (\<lambda>d. d\<lparr>dart_mode := Some (lg_mode lg),
                              dart_points := Some (lg_points_to_win lg),
                              dart_setup := Some \<lparr>su_initiator = cq_user q, su_bet = new_bet,
                                                  su_message_id = None\<rparr>\<rparr>) s)
           | User opponent_id \<Rightarrow>
               if new_bet > get_user_balance (cq_user q) s
                  \<or> new_bet > get_user_balance opponent_id s
               then Inr (Doubled_bet_too_high, s)
               else if user_games s (cq_chat q, opponent_id) \<noteq> None
               then Inr (Opponent_in_game, s)
               else Inr (Challenge_sent,
                      store_challenge (next_game_id s)
                        \<lparr>ch_initiator = cq_user q, ch_challenged = opponent_id,
                         ch_mode = lg_mode lg, ch_points_to_win = lg_points_to_win lg,
                         ch_bet = new_bet\<rparr> s)))"

text \<open>
  Lines 205-300: the setup phase. The dictionary \<open>mode_description\<close> has the keys
  \<open>'normal'\<close>, \<open>'double'\<close> and \<open>'crazy'\<close>; another mode raises KeyError at the
  confirmation.
\<close>

definition dart_setup_phase ::
  "game_setup \<Rightarrow> callback_query \<Rightarrow> dart_data \<Rightarrow> telegram_io \<Rightarrow> store \<Rightarrow> result" where
  "dart_setup_phase su q d io s =
     (if su_initiator su \<noteq> cq_user q then Inr (Not_your_setup, s)
      else if su_message_id su \<noteq> Some (cq_message_id q) then Inr (Not_your_setup, s)
      else
        (case d of
           D_mode_guide \<Rightarrow> Inr (Mode_guide, s)
         | D_back \<Rightarrow> Inr (Choose_mode, s)
         | D_cancel \<Rightarrow>
             Inr (Setup_cancelled, map_user_data (cq_user q) (\<lambda>d. d\<lparr>dart_setup := None\<rparr>) s)
         | D_mode m \<Rightarrow>
             Inr (Choose_points, map_user_data (cq_user q) (\<lambda>d. d\<lparr>dart_mode := Some m\<rparr>) s)
         | D_points n \<Rightarrow>
             (case dart_mode (user_data s (cq_user q)) of
                None \<Rightarrow> Inl KeyError
              | Some m \<Rightarrow>
                  Inr (Confirmation,
                       map_user_data (cq_user q) (\<lambda>d. d\<lparr>dart_points := Some n\<rparr>) s))
         | D_confirm_setup \<Rightarrow>
             (case dart_mode (user_data s (cq_user q)) of
                None \<Rightarrow> Inl KeyError
              | Some m \<Rightarrow>
                  (case dart_points (user_data s (cq_user q)) of
                     None \<Rightarrow> Inl KeyError
                   | Some n \<Rightarrow>
                       if m = ''normal'' \<or> m = ''double'' \<or> m = ''crazy''
                       then Inr (Choose_opponent, s) else Inl KeyError))
         | D_challenge \<Rightarrow>
             Inr (Enter_username,
                  map_user_data (cq_user q) (\<lambda>d. d\<lparr>expecting_username := True\<rparr>) s)
         | D_bot \<Rightarrow> start_game_against_bot (cq_chat q) (cq_user q) (io_message_id io) s
         | _ \<Rightarrow> Inr (Silent, s)))"

text \<open>
  \<open>dart_button_handler(update, context)\<close>, lines 195-527. While the user has a
  \<open>dart_setup\<close>, every button goes to the setup phase.
\<close>

definition dart_button_handler ::
  "dart_data \<Rightarrow> telegram_io \<Rightarrow> callback_query \<Rightarrow> store \<Rightarrow> result" where
  "dart_button_handler d io q s =
     (case dart_setup (user_data s (cq_user q)) of
        Some su \<Rightarrow> dart_setup_phase su q d io s
      | None \<Rightarrow>
          (case d of
             D_throw n \<Rightarrow> dart_throw q n io s
           | D_accept n \<Rightarrow> dart_accept q n io s
           | D_cancel_id n \<Rightarrow> dart_decline n s
           | D_play_again \<Rightarrow> dart_play_again q io s
           | D_double \<Rightarrow> dart_double q io s
           | _ \<Rightarrow> Inr (Silent, s)))"

text \<open>
  \<open>dart_text_handler(update, context)\<close>, lines 530-577. \<open>at_sign\<close> says whether the text
  starts with \<open>@\<close>; \<open>found\<close> is the result of the lookup of the name in the table
  \<open>users\<close>.
\<close>

definition dart_text_handler ::
  "chat_id \<Rightarrow> user_id \<Rightarrow> bool \<Rightarrow> user_id option \<Rightarrow> store \<Rightarrow> result" where
  "dart_text_handler chat u at_sign found s =
     (case dart_setup (user_data s u) of
        None \<Rightarrow> Inr (Silent, s)
      | Some su \<Rightarrow>
          if \<not> (expecting_username (user_data s u) \<and> su_initiator su = u)
          then Inr (Silent, s)
          else if \<not> at_sign then Inr (Invalid_username, s)
          else
            (case found of
               None \<Rightarrow> Inr (User_not_found, s)
             | Some challenged_user_id \<Rightarrow>
                 if challenged_user_id = u then Inr (Cannot_challenge_yourself, s)
                 else if get_user_balance challenged_user_id s < su_bet su
                 then Inr (Opponent_underfunded, s)
                 else if user_games s (chat, challenged_user_id) \<noteq> None
                 then Inr (Opponent_in_game, s)
                 else
                   (case dart_mode (user_data s u) of
                      None \<Rightarrow> Inl KeyError
                    | Some m \<Rightarrow>
                        (case dart_points (user_data s u) of
                           None \<Rightarrow> Inl KeyError
                         | Some pts \<Rightarrow>
                             Inr (Challenge_sent,
                                  map_user_data u (\<lambda>d. d\<lparr>expecting_username := False\<rparr>)
                                    (store_challenge (next_game_id s)
                                       \<lparr>ch_initiator = u, ch_challenged = challenged_user_id,
                                        ch_mode = m, ch_points_to_win = pts,
                                        ch_bet = su_bet su\<rparr> s))))))"

section \<open>The ownership wrapper of main.py\<close>

text \<open>
  \<open>with_game_ownership_check(handler, game_key, use_bot_data)\<close>, \<open>main.py\<close> lines
  594-627. Every game button handler is registered through it; darts, football and
  coin with \<open>use_bot_data=True\<close>. \<open>key_game\<close> reads \<open>context.user_data.get(game_key)\<close>
  and gives the message id of the game found there.
\<close>

definition with_game_ownership_check ::
  "(callback_query \<Rightarrow> store \<Rightarrow> result) \<Rightarrow> (user_data_rec \<Rightarrow> message_ref option option)
     \<Rightarrow> bool \<Rightarrow> callback_query \<Rightarrow> store \<Rightarrow> result" where
  "with_game_ownership_check handler key_game use_bot_data q s =
     (if use_bot_data then
        (let setup_check =
               (case dice_setup (user_data s (cq_user q)) of
                  None \<Rightarrow> Inr (No_active_game_or_setup, s)
                | Some su \<Rightarrow>
                    if su_message_id su = Some (cq_message_id q) then handler q s
                    else Inr (No_active_game_or_setup, s))
         in case user_games s (cq_chat q, cq_user q) of
              None \<Rightarrow> setup_check
            | Some k \<Rightarrow>
                (case games s k of
                   None \<Rightarrow> setup_check
                 | Some g \<Rightarrow>
                     handler q (store_game k (g\<lparr>message_id := Some (cq_message_id q)\<rparr>) s)))
      else
        (case key_game (user_data s (cq_user q)) of
           None \<Rightarrow> Inr (No_active_game, s)
         | Some mid \<Rightarrow>
             if mid \<noteq> Some (cq_message_id q) then Inr (Not_current_message, s)
             else handler q s))"

text \<open>The darts button handler as \<open>main.py\<close> line 717 registers it.\<close>

definition registered_dart_handler ::
  "dart_data \<Rightarrow> telegram_io \<Rightarrow> callback_query \<Rightarrow> store \<Rightarrow> result" where
  "registered_dart_handler d io =
     with_game_ownership_check (dart_button_handler d io) (\<lambda>_. None) True"

section \<open>Football\<close>

text \<open>
  \<open>calculate_effective_score(rolls, mode)\<close>, \<open>football.py\<close> lines 10-17. A mode
  other than the three falls off the end of the function, which returns \<open>None\<close>.
\<close>

definition calculate_effective_score :: "int list \<Rightarrow> string \<Rightarrow> error + int option" where
  "calculate_effective_score rs m =
     (if m = ''normal'' then
        (case first_roll rs of Inl e \<Rightarrow> Inl e
         | Inr r \<Rightarrow> Inr (Some (if r \<ge> 3 then r else 0)))
      else if m = ''double'' then Inr (Some (sum_list (filter (\<lambda>r. r \<ge> 3) rs)))
      else if m = ''crazy'' then
        (case first_roll rs of Inl e \<Rightarrow> Inl e
         | Inr r \<Rightarrow> Inr (Some (if r = 1 then 1 else 0)))
      else Inr None)"

text \<open>
  Lines 40-47: a point is awarded only if one player scores and the other does not.
\<close>

definition football_award :: "int \<Rightarrow> int \<Rightarrow> game \<Rightarrow> game" where
  "football_award e1 e2 g =
     (if e1 > 0 \<and> e2 = 0 then g\<lparr>scores := (scores g)(Player1 := scores g Player1 + 1)\<rparr>
      else if e2 > 0 \<and> e1 = 0 then g\<lparr>scores := (scores g)(Player2 := scores g Player2 + 1)\<rparr>
      else g)"

text \<open>
  \<open>evaluate_round\<close> of \<open>football.py\<close>, lines 20-115. Its statements from line 59 on
  are those of \<open>darts.py\<close> from line 46 on (the texts of the messages apart), so the
  model uses the same \<open>finish_match\<close> and \<open>next_round\<close>. Comparing \<open>None\<close> with 0
  raises TypeError.
\<close>

definition football_evaluate_round ::
  "game \<Rightarrow> chat_id \<Rightarrow> game_key \<Rightarrow> message_ref \<Rightarrow> store \<Rightarrow> result" where
  "football_evaluate_round g chat k new_mid s =
     (if int (length (rolls g Player1)) < rolls_needed g
         \<or> int (length (rolls g Player2)) < rolls_needed g
      then Inr (Rolls_incomplete, store_game k (reset_round g) s)
      else
        (case calculate_effective_score (rolls g Player1) (mode g) of
           Inl e \<Rightarrow> Inl e
         | Inr o1 \<Rightarrow>
             (case calculate_effective_score (rolls g Player2) (mode g) of
                Inl e \<Rightarrow> Inl e
              | Inr o2 \<Rightarrow>
                  (case o1 of
                     None \<Rightarrow> Inl TypeError
                   | Some e1 \<Rightarrow>
                       (case o2 of
                          None \<Rightarrow> Inl TypeError
                        | Some e2 \<Rightarrow>
                            (let g' = football_award e1 e2 g in
                             if match_over g' then finish_match g' chat k (store_game k g' s)
                             else next_round g' k new_mid s))))))"

text \<open>
  Lines 373-418 of \<open>football.py\<close>: a challenge is accepted. The statements are those of
  the darts handler; the setup that is cleared is \<open>football_setup\<close>.
\<close>

definition football_accept :: "callback_query \<Rightarrow> int \<Rightarrow> telegram_io \<Rightarrow> store \<Rightarrow> result" where
  "football_accept q game_id io s =
     (case map_of (pending_challenges s) game_id of
        None \<Rightarrow> Inr (Challenge_no_longer_valid, s)
      | Some c \<Rightarrow>
          if cq_user q \<noteq> ch_challenged c then Inr (Silent, s)
          else if user_games s (cq_chat q, ch_initiator c) \<noteq> None
                  \<or> user_games s (cq_chat q, cq_user q) \<noteq> None
          then Inr (One_of_you_in_game, s)
          else
            (let k = (cq_chat q, ch_initiator c, User (cq_user q));
                 g = new_game (ch_initiator c) (User (cq_user q)) (ch_mode c)
                       (ch_points_to_win c) (ch_bet c);
                 s1 = s\<lparr>games := (games s)(k \<mapsto> g)\<rparr>;
                 s2 = s1\<lparr>user_games := (user_games s1)((cq_chat q, ch_initiator c) \<mapsto> k)\<rparr>;
                 s3 = s2\<lparr>user_games := (user_games s2)((cq_chat q, cq_user q) \<mapsto> k)\<rparr>;
                 s4 = update_user_balance (ch_initiator c)
                        (float_sub (get_user_balance (ch_initiator c) s3) (ch_bet c)) s3;
                 s5 = update_user_balance (cq_user q)
                        (float_sub (get_user_balance (cq_user q) s4) (ch_bet c)) s4;
                 s6 = store_game k (g\<lparr>message_id := Some (io_message_id io)\<rparr>) s5;
                 s7 = del_challenge game_id s6;
                 s8 = map_user_data (cq_user q) (\<lambda>d. d\<lparr>football_setup := None\<rparr>) s7
             in Inr (Match_started, s8)))"

text \<open>
  \<open>start_game_against_bot(context, chat_id, user_id)\<close> of \<open>football.py\<close>, lines
  167-204: the statements of the darts function, reading \<open>football_setup\<close>,
  \<open>football_mode\<close> and \<open>football_points\<close>.
\<close>

definition football_start_game_against_bot ::
  "chat_id \<Rightarrow> user_id \<Rightarrow> message_ref \<Rightarrow> store \<Rightarrow> result" where
  "football_start_game_against_bot chat u new_mid s =
     (if user_games s (chat, u) \<noteq> None then Inr (Already_in_game, s)
      else
        (case football_setup (user_data s u) of
           None \<Rightarrow> Inl KeyError
         | Some su \<Rightarrow>
             (case football_mode (user_data s u) of
                None \<Rightarrow> Inl KeyError
              | Some m \<Rightarrow>
                  (case football_points (user_data s u) of
                     None \<Rightarrow> Inl KeyError
                   | Some pts \<Rightarrow>
                       (let k = (chat, u, Bot);
                            g = new_game u Bot m pts (su_bet su);
                            s1 = s\<lparr>games := (games s)(k \<mapsto> g)\<rparr>;
                            s2 = s1\<lparr>user_games := (user_games s1)((chat, u) \<mapsto> k)\<rparr>;
                            s3 = update_user_balance u
                                   (float_sub (get_user_balance u s2) (su_bet su)) s2;
                            s4 = store_game k (g\<lparr>message_id := Some new_mid\<rparr>) s3;
                            s5 = map_user_data u (\<lambda>d. d\<lparr>football_setup := None\<rparr>) s4
                        in Inr (Match_started, s5))))))"

text \<open>
  The callback data of the football buttons, after parsing: \<open>football_mode_guide\<close>,
  \<open>football_back\<close>, \<open>football_cancel\<close>, \<open>football_mode_<mode>\<close>,
  \<open>football_points_<n>\<close>, \<open>football_confirm_setup\<close>, \<open>football_challenge\<close>,
  \<open>football_bot\<close>, \<open>football_take_shot_<round>\<close>, \<open>football_accept_<id>\<close>,
  \<open>football_cancel_<id>\<close>, \<open>football_play_again\<close>, \<open>football_double\<close>.
\<close>

datatype football_data =
    F_mode_guide | F_back | F_cancel | F_mode string | F_points int | F_confirm_setup
  | F_challenge | F_bot | F_take_shot int | F_accept int | F_cancel_id int
  | F_play_again | F_double | F_other

text \<open>
  Lines 337-370: a shot with value \<open>v\<close> has been taken. Other than in \<open>darts.py\<close>,
  the round is evaluated only after the turn has passed to the other player (and the
  bot has taken its shots).
\<close>

definition football_after_shot ::
  "game \<Rightarrow> slot \<Rightarrow> int \<Rightarrow> chat_id \<Rightarrow> game_key \<Rightarrow> telegram_io \<Rightarrow> store \<Rightarrow> result" where
  "football_after_shot g pk v chat k io s =
     (let g1 = add_roll pk v g in
      if roll_count g1 pk < rolls_needed g1
      then Inr (Throw_again, store_game k (g1\<lparr>message_id := Some (io_message_id io)\<rparr>) s)
      else
        (let other = other_player pk;
             g2 = g1\<lparr>current_player := other\<rparr>;
             bot_shots =
               (if player_of g2 other = Bot
                then map_option (\<lambda>vs. add_bot_rolls other vs g2)
                       (bot_throws (io_bot_dice io)
                          (nat (rolls_needed g2 - roll_count g2 other)))
                else Some g2)
         in case bot_shots of
              None \<Rightarrow> Inr (Throw_failed, store_game k g2 s)
            | Some g3 \<Rightarrow>
                if roll_count g3 Player1 = rolls_needed g3
                   \<and> roll_count g3 Player2 = rolls_needed g3
                then football_evaluate_round g3 chat k (io_message_id io) (store_game k g3 s)
                else Inr (Your_turn,
                          store_game k (g3\<lparr>message_id := Some (io_message_id io)\<rparr>) s)))"

text \<open>Lines 309-336: the checks before a shot, in the source's order.\<close>

definition football_take_shot ::
  "callback_query \<Rightarrow> int \<Rightarrow> telegram_io \<Rightarrow> store \<Rightarrow> result" where
  "football_take_shot q turn_round io s =
     (case user_games s (cq_chat q, cq_user q) of
        None \<Rightarrow> Inr (No_active_game, s)
      | Some k \<Rightarrow>
          (case games s k of
             None \<Rightarrow> Inr (Old_message, s)
           | Some g \<Rightarrow>
               if Some (cq_message_id q) \<noteq> message_id g then Inr (Old_message, s)
               else if match_over g then Inr (Game_already_ended, s)
               else
                 (case player_key g (cq_user q) of
                    None \<Rightarrow> Inr (Silent, s)
                  | Some pk \<Rightarrow>
                      if turn_round \<noteq> round_number g then Inr (Previous_round, s)
                      else if pk \<noteq> current_player g then Inr (Not_your_turn, s)
                      else
                        (case io_dice io of
                           None \<Rightarrow> Inr (Throw_failed, s)
                         | Some v \<Rightarrow> football_after_shot g pk v (cq_chat q) k io s))))"

text \<open>Lines 431-468: play again with the parameters of the last game.\<close>

definition football_play_again :: "callback_query \<Rightarrow> telegram_io \<Rightarrow> store \<Rightarrow> result" where
  "football_play_again q io s =
     (case last_games s (cq_chat q, cq_user q) of
        None \<Rightarrow> Inr (No_previous_game, s)
      | Some lg \<Rightarrow>
          (case lg_opponent lg of
             Bot \<Rightarrow>
               football_start_game_against_bot (cq_chat q) (cq_user q) (io_message_id io)
                 (map_user_data (cq_user q)
                    (\<lambda>d. d\<lparr>football_mode := Some (lg_mode lg),
                            football_points := Some (lg_points_to_win lg),
                            football_setup :=
                              Some \<lparr>su_initiator = cq_user q, su_bet = lg_bet lg,
                                    su_message_id = None\<rparr>\<rparr>) s)
           | User opponent_id \<Rightarrow>
               if user_games s (cq_chat q, opponent_id) \<noteq> None
               then Inr (Opponent_in_game, s)
               else Inr (Challenge_sent,
                      store_challenge (next_game_id s)
                        \<lparr>ch_initiator = cq_user q, ch_challenged = opponent_id,
                         ch_mode = lg_mode lg, ch_points_to_win = lg_points_to_win lg,
                         ch_bet = lg_bet lg\<rparr> s)))"

text \<open>Lines 470-520: play again for twice the bet.\<close>

definition football_double :: "callback_query \<Rightarrow> telegram_io \<Rightarrow> store \<Rightarrow> result" where
  "football_double q io s =
     (case last_games s (cq_chat q, cq_user q) of
        None \<Rightarrow> Inr (No_previous_game, s)
      | Some lg \<Rightarrow>
          (let new_bet = float_mul (lg_bet lg) 2 in
           case lg_opponent lg of
             Bot \<Rightarrow>
               if new_bet > get_user_balance (cq_user q) s then Inr (Insufficient_balance, s)
               else
                 football_start_game_against_bot (cq_chat q) (cq_user q) (io_message_id io)
                   (map_user_data (cq_user q)
                      (\<lambda>d. d\<lparr>football_mode := Some (lg_mode lg),
                              football_points := Some (lg_points_to_win lg),
                              football_setup :=
                                Some \<lparr>su_initiator = cq_user q, su_bet = new_bet,
                                      su_message_id = None\<rparr>\<rparr>) s)
           | User opponent_id \<Rightarrow>
               if new_bet > get_user_balance (cq_user q) s
                  \<or> new_bet > get_user_balance opponent_id s
               then Inr (Doubled_bet_too_high, s)
               else if user_games s (cq_chat q, opponent_id) \<noteq> None
               then Inr (Opponent_in_game, s)
               else Inr (Challenge_sent,
                      store_challenge (next_game_id s)
                        \<lparr>ch_initiator = cq_user q, ch_challenged = opponent_id,
                         ch_mode = lg_mode lg, ch_points_to_win = lg_points_to_win lg,
                         ch_bet = new_bet\<rparr> s)))"

text \<open>
  Lines 216-306: the setup phase. The dictionary \<open>mode_description\<close> has the keys
  \<open>'normal'\<close>, \<open>'double'\<close> and \<open>'crazy'\<close>; another mode raises KeyError at the
  confirmation.
\<close>

definition football_setup_phase ::
  "game_setup \<Rightarrow> callback_query \<Rightarrow> football_data \<Rightarrow> telegram_io \<Rightarrow> store \<Rightarrow> result" where
  "football_setup_phase su q d io s =
     (if su_initiator su \<noteq> cq_user q \<or> su_message_id su \<noteq> Some (cq_message_id q)
      then Inr (Not_your_setup, s)
      else
        (case d of
           F_mode_guide \<Rightarrow> Inr (Mode_guide, s)
         | F_back \<Rightarrow> Inr (Choose_mode, s)
         | F_cancel \<Rightarrow>
             Inr (Setup_cancelled,
                  map_user_data (cq_user q) (\<lambda>d. d\<lparr>football_setup := None\<rparr>) s)
         | F_mode m \<Rightarrow>
             Inr (Choose_points,
                  map_user_data (cq_user q) (\<lambda>d. d\<lparr>football_mode := Some m\<rparr>) s)
         | F_points n \<Rightarrow>
             (case football_mode (user_data s (cq_user q)) of
                None \<Rightarrow> Inl KeyError
              | Some m \<Rightarrow>
                  Inr (Confirmation,
                       map_user_data (cq_user q) (\<lambda>d. d\<lparr>football_points := Some n\<rparr>) s))
         | F_confirm_setup \<Rightarrow>
             (case football_mode (user_data s (cq_user q)) of
                None \<Rightarrow> Inl KeyError
              | Some m \<Rightarrow>
                  (case football_points (user_data s (cq_user q)) of
                     None \<Rightarrow> Inl KeyError
                   | Some n \<Rightarrow>
                       if m = ''normal'' \<or> m = ''double'' \<or> m = ''crazy''
                       then Inr (Choose_opponent, s) else Inl KeyError))
         | F_challenge \<Rightarrow>
             Inr (Enter_username,
                  map_user_data (cq_user q) (\<lambda>d. d\<lparr>expecting_username := True\<rparr>) s)
         | F_bot \<Rightarrow>
             football_start_game_against_bot (cq_chat q) (cq_user q) (io_message_id io) s
         | _ \<Rightarrow> Inr (Silent, s)))"

text \<open>
  \<open>football_button_handler(update, context)\<close>, lines 207-524. While the user has a
  \<open>football_setup\<close>, every button goes to the setup phase. The statements that decline
  a challenge (lines 420-429) are those of \<open>darts.py\<close>. The body of the handler is
  inside \<open>try: ... except Exception\<close> (lines 214 and 522-524): an exception is logged
  and answered with "An error occurred", and what was written to the dictionaries and
  the ledger before it stays. As for darts, where the exception leaves the handler, the
  model's result for a run that raises is \<open>Inl\<close> of the exception, without a store.
\<close>

definition football_button_handler ::
  "football_data \<Rightarrow> telegram_io \<Rightarrow> callback_query \<Rightarrow> store \<Rightarrow> result" where
  "football_button_handler d io q s =
     (case football_setup (user_data s (cq_user q)) of
        Some su \<Rightarrow> football_setup_phase su q d io s
      | None \<Rightarrow>
          (case d of
             F_take_shot n \<Rightarrow> football_take_shot q n io s
           | F_accept n \<Rightarrow> football_accept q n io s
           | F_cancel_id n \<Rightarrow> dart_decline n s
           | F_play_again \<Rightarrow> football_play_again q io s
           | F_double \<Rightarrow> football_double q io s
           | _ \<Rightarrow> Inr (Silent, s)))"

text \<open>The football button handler as \<open>main.py\<close> line 718 registers it.\<close>

definition registered_football_handler ::
  "football_data \<Rightarrow> telegram_io \<Rightarrow> callback_query \<Rightarrow> store \<Rightarrow> result" where
  "registered_football_handler d io =
     with_game_ownership_check (football_button_handler d io) (\<lambda>_. None) True"

section \<open>Coin flip\<close>

text \<open>\<open>PLAYER_WIN_PROB = 0.4\<close>, \<open>coin.py\<close> line 8: the float nearest to 4/10.\<close>

definition PLAYER_WIN_PROB :: rat where
  "PLAYER_WIN_PROB = float_round (4 / 10)"

text \<open>
  \<open>random.random()\<close> of Python's standard library draws 53 random bits and divides
  the number \<open>k\<close> they make by \<open>2 ^ 53\<close>: the value is one of the floats
  \<open>k / 2 ^ 53\<close> with \<open>0 \<le> k < 2 ^ 53\<close>, each \<open>k\<close> being as likely as any other.
\<close>

definition random_float :: "nat \<Rightarrow> rat" where
  "random_float k = of_nat k / 2 ^ 53"

text \<open>
  Lines 139-143. \<open>r\<close> is the value of \<open>random.random()\<close>, a number in the interval
  from 0 (included) to 1 (excluded).
\<close>

definition coin_result :: "rat \<Rightarrow> string \<Rightarrow> string" where
  "coin_result r player_choice =
     (if r < PLAYER_WIN_PROB then player_choice
      else if player_choice = ''heads'' then ''tails'' else ''heads'')"

text \<open>
  \<open>coin_command(update, context)\<close>, lines 16-54, for a command with one argument that
  parses as a number.
\<close>

definition in_coin_game :: "chat_id \<times> user_id \<Rightarrow> store \<Rightarrow> bool" where
  "in_coin_game k s = (case coin_games s of None \<Rightarrow> False | Some cg \<Rightarrow> cg k \<noteq> None)"

definition coin_command :: "chat_id \<Rightarrow> user_id \<Rightarrow> rat \<Rightarrow> message_ref \<Rightarrow> store \<Rightarrow> result" where
  "coin_command chat u amount new_mid s =
     (if in_coin_game (chat, u) s then Inr (Already_in_game, s)
      else if amount \<le> 0 then Inr (Invalid_bet, s)
      else if \<not> user_exists u s then Inr (Please_register, s)
      else if amount > get_user_balance u s then Inr (Insufficient_balance, s)
      else Inr (Choose_side,
             map_user_data u
               (\<lambda>d. d\<lparr>coin_setup :=
                   Some \<lparr>cs_initiator = Some u, cs_bet = amount,
                         cs_message_id = Some new_mid, cs_choice = None\<rparr>\<rparr>) s))"

datatype coin_data =
  C_cancel | C_heads | C_tails | C_confirm | C_bot | C_flip | C_restart | C_double | C_other

text \<open>
  The check \<open>not setup or setup['initiator'] != user_id or setup['message_id'] != ...\<close>
  of lines 72, 92 and 111: \<open>Inr True\<close> when the setup is the caller's. The dictionary
  left after a flip has no key \<open>'initiator'\<close>, and indexing it raises KeyError.
\<close>

definition own_coin_setup :: "coin_setup_rec option \<Rightarrow> callback_query \<Rightarrow> error + bool" where
  "own_coin_setup setup q =
     (case setup of
        None \<Rightarrow> Inr False
      | Some cs \<Rightarrow>
          (case cs_initiator cs of
             None \<Rightarrow> Inl KeyError
           | Some i \<Rightarrow> Inr (i = cq_user q \<and> cs_message_id cs = Some (cq_message_id q))))"

text \<open>
  Lines 110-130: the match against the bot is started. \<open>edit_message_text\<close> returns the
  edited message, so the stored id is the id of the message with the pressed button.
\<close>

definition coin_bot :: "coin_setup_rec \<Rightarrow> callback_query \<Rightarrow> store \<Rightarrow> result" where
  "coin_bot cs q s =
     (case cs_choice cs of
        None \<Rightarrow> Inl KeyError
      | Some choice \<Rightarrow>
          (let old = (case coin_games s of None \<Rightarrow> Map.empty | Some cg \<Rightarrow> cg);
               s1 = s\<lparr>coin_games :=
                      Some (old((cq_chat q, cq_user q) \<mapsto>
                        \<lparr>cg_bet = cs_bet cs, cg_choice = choice,
                         cg_match_message_id = cq_message_id q\<rparr>))\<rparr>
           in Inr (Flip_prompt, map_user_data (cq_user q) (\<lambda>d. d\<lparr>coin_setup := None\<rparr>) s1)))"

text \<open>
  Lines 132-191: the flip and the settlement. \<open>STICKER_IDS\<close> has the keys \<open>'heads'\<close> and
  \<open>'tails'\<close>.
\<close>

definition coin_flip :: "callback_query \<Rightarrow> rat \<Rightarrow> store \<Rightarrow> result" where
  "coin_flip q r s =
     (case coin_games s of
        None \<Rightarrow> Inl KeyError
      | Some cg \<Rightarrow>
          (case cg (cq_chat q, cq_user q) of
             None \<Rightarrow> Inr (Old_game_button, s)
           | Some game \<Rightarrow>
               if cq_message_id q \<noteq> cg_match_message_id game then Inr (Old_game_button, s)
               else
                 (let res = coin_result r (cg_choice game) in
                  if res \<noteq> ''heads'' \<and> res \<noteq> ''tails'' then Inl KeyError
                  else
                    (let won = (cg_choice game = res);
                         winnings = float_mul (cg_bet game) float_1_92;
                         new_balance =
                           (if won
                            then float_sub (float_add (get_user_balance (cq_user q) s) winnings)
                                   (cg_bet game)
                            else float_sub (get_user_balance (cq_user q) s) (cg_bet game));
                         s1 = update_user_balance (cq_user q) new_balance s;
                         s2 = map_user_data (cq_user q)
                                (\<lambda>d. d\<lparr>coin_setup :=
                                    Some \<lparr>cs_initiator = None, cs_bet = cg_bet game,
                                          cs_message_id = None, cs_choice = None\<rparr>\<rparr>) s1;
                         s3 = s2\<lparr>coin_games := Some (cg((cq_chat q, cq_user q) := None))\<rparr>
                     in Inr (if won then Coin_won res else Coin_lost res, s3)))))"

text \<open>
  Lines 193-238: play again, with the same bet or, when \<open>doubled\<close>, with
  \<open>bet * 2\<close>. \<open>if bet:\<close> is false for an absent bet and for the number 0.
\<close>

definition coin_again :: "bool \<Rightarrow> callback_query \<Rightarrow> telegram_io \<Rightarrow> store \<Rightarrow> result" where
  "coin_again doubled q io s =
     (case coin_setup (user_data s (cq_user q)) of
        None \<Rightarrow> Inr (No_previous_game, s)
      | Some cs \<Rightarrow>
          if cs_bet cs = 0 then Inr (No_previous_game, s)
          else
            (let new_bet = (if doubled then float_mul (cs_bet cs) 2 else cs_bet cs) in
             if new_bet > get_user_balance (cq_user q) s
             then Inr (Insufficient_balance, s)
             else Inr (Choose_side,
                    map_user_data (cq_user q)
                      (\<lambda>d. d\<lparr>coin_setup :=
                          Some \<lparr>cs_initiator = Some (cq_user q), cs_bet = new_bet,
                                cs_message_id = Some (io_message_id io),
                                cs_choice = None\<rparr>\<rparr>) s)))"

text \<open>\<open>coin_button_handler(update, context)\<close>, lines 56-238.\<close>

definition coin_button_handler ::
  "coin_data \<Rightarrow> rat \<Rightarrow> telegram_io \<Rightarrow> callback_query \<Rightarrow> store \<Rightarrow> result" where
  "coin_button_handler d r io q s =
     (let setup = coin_setup (user_data s (cq_user q)) in
      case d of
        C_cancel \<Rightarrow>
          (case own_coin_setup setup q of
             Inl e \<Rightarrow> Inl e
           | Inr ok \<Rightarrow>
               if ok then Inr (Setup_cancelled,
                              map_user_data (cq_user q) (\<lambda>d. d\<lparr>coin_setup := None\<rparr>) s)
               else Inr (Silent, s))
      | C_heads \<Rightarrow>
          (case own_coin_setup setup q of
             Inl e \<Rightarrow> Inl e
           | Inr ok \<Rightarrow>
               if \<not> ok then Inr (Not_your_setup, s)
               else Inr (Confirmation,
                      map_user_data (cq_user q)
                        (\<lambda>d. d\<lparr>coin_setup :=
                            map_option (\<lambda>c. c\<lparr>cs_choice := Some ''heads''\<rparr>) (coin_setup d)\<rparr>) s))
      | C_tails \<Rightarrow>
          (case own_coin_setup setup q of
             Inl e \<Rightarrow> Inl e
           | Inr ok \<Rightarrow>
               if \<not> ok then Inr (Not_your_setup, s)
               else Inr (Confirmation,
                      map_user_data (cq_user q)
                        (\<lambda>d. d\<lparr>coin_setup :=
                            map_option (\<lambda>c. c\<lparr>cs_choice := Some ''tails''\<rparr>) (coin_setup d)\<rparr>) s))
      | C_confirm \<Rightarrow>
          (case own_coin_setup setup q of
             Inl e \<Rightarrow> Inl e
           | Inr ok \<Rightarrow> if \<not> ok then Inr (Not_your_setup, s) else Inr (Choose_opponent, s))
      | C_bot \<Rightarrow>
          (case own_coin_setup setup q of
             Inl e \<Rightarrow> Inl e
           | Inr ok \<Rightarrow>
               if \<not> ok then Inr (Not_your_setup, s)
               else (case setup of None \<Rightarrow> Inr (Not_your_setup, s) | Some cs \<Rightarrow> coin_bot cs q s))
      | C_flip \<Rightarrow> coin_flip q r s
      | C_restart \<Rightarrow> coin_again False q io s
      | C_double \<Rightarrow> coin_again True q io s
      | C_other \<Rightarrow> Inr (Silent, s))"

section \<open>The store of a freshly started bot\<close>

text \<open>
  All dictionaries are empty and no user has any dialogue state. The concrete runs below
  start from this store with a few accounts added.
\<close>

definition no_user_data :: user_data_rec where
  "no_user_data =
     \<lparr>dart_setup = None, dart_mode = None, dart_points = None,
      football_setup = None, football_mode = None, football_points = None,
      expecting_username = False, dice_setup = None, coin_setup = None\<rparr>"

definition fresh_store :: "(user_id \<rightharpoonup> rat) \<Rightarrow> store" where
  "fresh_store accounts =
     \<lparr>users = accounts, games = Map.empty, user_games = Map.empty,
      last_games = Map.empty, pending_challenges = [], coin_games = None,
      user_data = (\<lambda>_. no_user_data)\<rparr>"

text \<open>
  Stores for the concrete runs: a user with balance 3 whose last darts game was against
  the bot for a bet of 5; three users whose last games were against three other users;
  and a pending challenge to a double-throw match between users 7 and 8.
\<close>

definition rematch_low_balance :: store where
  "rematch_low_balance =
     (fresh_store [7 \<mapsto> 3])\<lparr>last_games :=
        [(1, 7) \<mapsto> \<lparr>lg_opponent = Bot, lg_mode = ''normal'',
                     lg_points_to_win = 1, lg_bet = 5\<rparr>]\<rparr>"

definition three_rematches :: store where
  "three_rematches =
     (fresh_store Map.empty)\<lparr>last_games :=
        [(1, 10) \<mapsto> \<lparr>lg_opponent = User 11, lg_mode = ''normal'',
                      lg_points_to_win = 1, lg_bet = 5\<rparr>,
         (1, 20) \<mapsto> \<lparr>lg_opponent = User 21, lg_mode = ''normal'',
                      lg_points_to_win = 1, lg_bet = 5\<rparr>,
         (1, 30) \<mapsto> \<lparr>lg_opponent = User 31, lg_mode = ''normal'',
                      lg_points_to_win = 1, lg_bet = 5\<rparr>]\<rparr>"

definition pending_double_duel :: store where
  "pending_double_duel =
     (fresh_store [7 \<mapsto> 100, 8 \<mapsto> 100])\<lparr>pending_challenges :=
        [(1, \<lparr>ch_initiator = 7, ch_challenged = 8, ch_mode = ''double'',
              ch_points_to_win = 2, ch_bet = 10\<rparr>)]\<rparr>"



text \<open>
  User 7 (balance 10) has set up a darts game for a bet of 5, mode normal, first to 1
  point, and is about to press "Play against Bot".
\<close>

definition ready_for_bot :: store where
  "ready_for_bot =
     map_user_data 7
       (\<lambda>d. d\<lparr>dart_setup := Some \<lparr>su_initiator = 7, su_bet = 5, su_message_id = Some 100\<rparr>,
               dart_mode := Some ''normal'', dart_points := Some 1\<rparr>)
       (fresh_store [7 \<mapsto> 10])"

text \<open>
  User 7 has a darts match against the bot and a coin game in chat 1; user 8's last
  darts game was against user 7.
\<close>

definition two_sessions :: store where
  "two_sessions =
     (fresh_store [7 \<mapsto> 90, 8 \<mapsto> 100])\<lparr>
        games := [(1, 7, Bot) \<mapsto> (new_game 7 Bot ''normal'' 1 10)\<lparr>message_id := Some 101\<rparr>],
        user_games := [(1, 7) \<mapsto> (1, 7, Bot)],
        last_games := [(1, 8) \<mapsto> \<lparr>lg_opponent = User 7, lg_mode = ''normal'',
                                    lg_points_to_win = 1, lg_bet = 10\<rparr>],
        coin_games := Some [(1, 7) \<mapsto> \<lparr>cg_bet = 5, cg_choice = ''heads'',
                                         cg_match_message_id = 200\<rparr>]\<rparr>"

section \<open>The lifetime of a session\<close>

text \<open>
  The two variants of the game with sessions in \<open>user_games\<close>, and what each of the
  two modules calls the same step: the acceptance of a challenge, the start of a match
  against the bot, the setup, mode and points that the start reads, and the press of
  the throw button
  (\<open>dart_throw_<round>\<close>, \<open>football_take_shot_<round>\<close>), handled by the module's
  button handler alone or as \<open>main.py\<close> registers it.
\<close>

datatype variant = Darts | Football


definition start_bot_match ::
  "variant \<Rightarrow> chat_id \<Rightarrow> user_id \<Rightarrow> message_ref \<Rightarrow> store \<Rightarrow> result" where
  "start_bot_match v =
     (case v of Darts \<Rightarrow> start_game_against_bot | Football \<Rightarrow> football_start_game_against_bot)"

definition setup_of :: "variant \<Rightarrow> user_data_rec \<Rightarrow> game_setup option" where
  "setup_of v = (case v of Darts \<Rightarrow> dart_setup | Football \<Rightarrow> football_setup)"

definition mode_of :: "variant \<Rightarrow> user_data_rec \<Rightarrow> string option" where
  "mode_of v = (case v of Darts \<Rightarrow> dart_mode | Football \<Rightarrow> football_mode)"

definition points_of :: "variant \<Rightarrow> user_data_rec \<Rightarrow> int option" where
  "points_of v = (case v of Darts \<Rightarrow> dart_points | Football \<Rightarrow> football_points)"

definition throw_button ::
  "variant \<Rightarrow> bool \<Rightarrow> int \<Rightarrow> telegram_io \<Rightarrow> callback_query \<Rightarrow> store \<Rightarrow> result" where
  "throw_button v registered n =
     (case v of
        Darts \<Rightarrow>
          (if registered then registered_dart_handler else dart_button_handler) (D_throw n)
      | Football \<Rightarrow>
          (if registered then registered_football_handler else football_button_handler)
            (F_take_shot n))"







section \<open>Float arithmetic\<close>

text \<open>
  Rounding keeps the sign: the float nearest to a positive number is positive, the one
  nearest to a negative number is negative. So the float difference \<open>x - y\<close> is
  negative exactly when \<open>x < y\<close>.
\<close>

lemma powi_nat: "0 \<le> b \<Longrightarrow> (2::rat) powi b = 2 ^ nat b"
  by (simp add: power_int_def)

lemma ilog2_lower:
  assumes "0 < a"
  shows "2 powi (ilog2 a) \<le> a"
proof (cases "a \<ge> 1")
  case True
  then have pos: "0 < \<lfloor>a\<rfloor>" by linarith
  from bitlen_bounds [OF pos] have "2 ^ nat (bitlen \<lfloor>a\<rfloor> - 1) \<le> \<lfloor>a\<rfloor>" by simp
  then have "(2::rat) ^ nat (bitlen \<lfloor>a\<rfloor> - 1) \<le> of_int \<lfloor>a\<rfloor>"
    by (metis of_int_le_iff of_int_numeral of_int_power)
  also have "\<dots> \<le> a" by simp
  finally have "(2::rat) ^ nat (bitlen \<lfloor>a\<rfloor> - 1) \<le> a" .
  moreover have "0 \<le> bitlen \<lfloor>a\<rfloor> - 1"
    using pos bitlen_eq_zero_iff [of "\<lfloor>a\<rfloor>"] bitlen_nonneg [of "\<lfloor>a\<rfloor>"] by linarith
  ultimately show ?thesis
    using True by (simp add: ilog2_def powi_nat)
next
  case False
  let ?N = "\<lceil>1 / a\<rceil>"
  let ?b = "bitlen (?N - 1)"
  from False assms have "1 < 1 / a" by simp
  then have N: "2 \<le> ?N" by linarith
  then have pos: "0 < ?N - 1" by simp
  from bitlen_bounds [OF pos] have "?N - 1 < 2 ^ nat ?b" by simp
  then have "?N \<le> 2 ^ nat ?b" by simp
  then have "(of_int ?N :: rat) \<le> 2 ^ nat ?b"
    by (metis of_int_le_iff of_int_numeral of_int_power)
  moreover have "1 / a \<le> of_int ?N" by simp
  ultimately have "1 / a \<le> 2 ^ nat ?b" by linarith
  then have "1 \<le> 2 ^ nat ?b * a"
    using assms by (simp add: field_simps)
  then have "inverse (2 ^ nat ?b) \<le> a"
    by (simp add: field_simps)
  moreover have "0 \<le> ?b" by (rule bitlen_nonneg)
  moreover have "(2::rat) powi (- ?b) = inverse (2 powi ?b)" by (rule power_int_minus)
  ultimately show ?thesis
    using False by (simp add: ilog2_def powi_nat)
qed

lemma round_half_even_ge: "of_int \<lfloor>t\<rfloor> \<le> (of_int (round_half_even t) :: rat)"
  by (simp add: round_half_even_def Let_def)

lemma float_round_pos:
  assumes "0 < x"
  shows "0 < float_round x"
proof -
  let ?u = "(2::rat) powi (ilog2 x - 52)"
  have u: "0 < ?u" by simp
  have "2 powi (ilog2 x) \<le> x" using ilog2_lower [OF assms] .
  moreover have "(2::rat) powi 52 * ?u = 2 powi (ilog2 x)"
    using power_int_add [of "2::rat" 52 "ilog2 x - 52"] by simp
  ultimately have "(2::rat) powi 52 * ?u \<le> x" by simp
  then have "(2::rat) powi 52 \<le> x / ?u"
    using u by (simp add: pos_le_divide_eq)
  moreover have "(1::rat) \<le> 2 powi 52" by (simp add: powi_nat)
  ultimately have "1 \<le> x / ?u" by linarith
  then have "1 \<le> \<lfloor>x / ?u\<rfloor>" by linarith
  then have "0 < round_half_even (x / ?u)"
    using round_half_even_ge [of "x / ?u"] by linarith
  then show ?thesis
    using assms u by (simp add: float_round_def Let_def)
qed

lemma float_round_minus: "float_round (- x) = - float_round x"
  by (simp add: float_round_def Let_def)

lemma float_round_neg_iff: "float_round x < 0 \<longleftrightarrow> x < 0"
proof (cases "x = 0")
  case True
  then show ?thesis by (simp add: float_round_def)
next
  case False
  then consider "0 < x" | "0 < - x" by linarith
  then show ?thesis
  proof cases
    case 1
    then show ?thesis using float_round_pos [of x] by linarith
  next
    case 2
    then show ?thesis using float_round_pos [of "- x"] by (simp add: float_round_minus)
  qed
qed

lemma float_sub_neg_iff: "float_sub x y < 0 \<longleftrightarrow> x < y"
  by (simp add: float_sub_def float_round_neg_iff)

text \<open>
  The rounded number is at most half a unit in the last place away from the exact one:
  one operation changes its exact result \<open>x\<close> by at most \<open>\<bar>x\<bar> / 2 ^ 53\<close>.
\<close>

lemma round_half_even_error: "\<bar>of_int (round_half_even t) - t\<bar> \<le> (1 / 2 :: rat)"
proof -
  have "of_int \<lfloor>t\<rfloor> \<le> t" "t < of_int \<lfloor>t\<rfloor> + 1" by linarith+
  then show ?thesis
    by (auto simp: round_half_even_def Let_def abs_le_iff)
qed

lemma float_round_error: "\<bar>float_round x - x\<bar> \<le> \<bar>x\<bar> / 2 ^ 53"
proof (cases "x = 0")
  case True
  then show ?thesis by (simp add: float_round_def)
next
  case False
  let ?a = "\<bar>x\<bar>"
  let ?e = "ilog2 ?a"
  let ?u = "(2::rat) powi (?e - 52)"
  let ?n = "round_half_even (?a / ?u)"
  have apos: "0 < ?a" using False by simp
  have u: "0 < ?u" by simp
  have fr: "float_round x = sgn x * (of_int ?n * ?u)"
    using False by (simp add: float_round_def Let_def)
  have "float_round x - x = sgn x * (of_int ?n * ?u - ?a)"
  proof -
    have "sgn x * \<bar>x\<bar> = x" by (rule sgn_mult_abs)
    then show ?thesis unfolding fr by (simp add: right_diff_distrib)
  qed
  then have "\<bar>float_round x - x\<bar> = \<bar>of_int ?n * ?u - ?a\<bar>"
    using False by (simp add: abs_mult abs_sgn_eq)
  also have "of_int ?n * ?u - ?a = ?u * (of_int ?n - ?a / ?u)"
    using u by (simp add: field_simps)
  also have "\<bar>\<dots>\<bar> = ?u * \<bar>of_int ?n - ?a / ?u\<bar>"
    using u by (simp add: abs_mult)
  also have "\<dots> \<le> ?u * (1 / 2)"
    using round_half_even_error [of "?a / ?u"] u by (intro mult_left_mono) simp_all
  also have "\<dots> = 2 powi ?e / 2 ^ 53"
  proof -
    have "(2::rat) powi ?e = 2 powi (?e - 52) * 2 powi 52"
      using power_int_add [of "2::rat" "?e - 52" 52] by simp
    then show ?thesis by (simp add: powi_nat)
  qed
  also have "\<dots> \<le> ?a / 2 ^ 53"
    using ilog2_lower [OF apos] by (simp add: divide_right_mono)
  finally show ?thesis .
qed

lemma float_sub_close: "\<bar>float_sub x y - (x - y)\<bar> \<le> \<bar>x - y\<bar> / 2 ^ 53"
  unfolding float_sub_def by (rule float_round_error)



lemma PLAYER_WIN_PROB_value: "PLAYER_WIN_PROB = 3602879701896397 / 9007199254740992"
  by code_simp

lemma float_values:
  "float_sub 100 10 = 90"
  "float_sub 10 5 = 5"
  "float_sub 3 5 = - 2"
  "float_sub 1 5 = - 4"
  "float_sub 2 5 = - 3"
  "float_add (float_add 90 (float_mul 10 float_1_92)) 10 = 8387954305977549 / 70368744177664"
  by code_simp+

section \<open>Unfolding the handlers\<close>

text \<open>The definitions that a concrete run of the handlers unfolds.\<close>

lemmas handler_defs =
  dart_button_handler_def dart_throw_def after_throw_def dart_accept_def dart_decline_def
  dart_play_again_def dart_double_def start_game_against_bot_def evaluate_round_def
  finish_match_def next_round_def release_def del_user_game_def del_game_def
  record_last_games_def pay_winner_def prize_def winner_slot_def match_over_def player_of_def
  reset_round_def award_def dart_round_scores_def first_roll_def new_game_def
  map_user_data_def store_game_def update_user_balance_def get_user_balance_def
  next_game_id_def store_challenge_def del_challenge_def player_key_def other_player_def
  add_roll_def add_bot_rolls_def fresh_store_def no_user_data_def
  with_game_ownership_check_def registered_dart_handler_def




section \<open>Coin flip: the threshold decides the flip\<close>

lemma random_float_wins:
  "random_float k < PLAYER_WIN_PROB \<longleftrightarrow> k < 3602879701896397"
proof -
  have "random_float k < PLAYER_WIN_PROB \<longleftrightarrow>
      (of_nat k :: rat) / 2 ^ 53 < of_nat 3602879701896397 / 2 ^ 53"
    by (simp add: random_float_def PLAYER_WIN_PROB_value)
  also have "\<dots> \<longleftrightarrow> (of_nat k :: rat) < of_nat 3602879701896397"
    by (simp only: divide_less_cancel) simp
  also have "\<dots> \<longleftrightarrow> k < 3602879701896397"
    by (simp only: of_nat_less_iff)
  finally show ?thesis .
qed

lemma coin_flip_reply:
  assumes "coin_games s = Some cg" and "cg (cq_chat q, cq_user q) = Some game"
    and "cq_message_id q = cg_match_message_id game"
    and "cg_choice game = c" and "c = ''heads'' \<or> c = ''tails''"
  shows "\<exists>s'. coin_button_handler C_flip r io q s =
      Inr (if r < PLAYER_WIN_PROB then Coin_won c
           else Coin_lost (if c = ''heads'' then ''tails'' else ''heads''), s')"
  using assms
  by (auto simp: coin_button_handler_def coin_flip_def coin_result_def Let_def)

text \<open>
  Claim C9. A coin game of the user is registered with the chosen side \<open>c\<close>, and the
  user presses "Flip the Coin" on its message; \<open>r\<close> is the value of
  \<open>random.random()\<close>. The handler answers that the coin landed on \<open>c\<close> and the player
  has won exactly when \<open>r\<close> is below the constant \<open>PLAYER_WIN_PROB\<close>, and otherwise
  that it landed on the opposite side and the player has lost, whichever side was
  chosen: the face is computed from the draw and the choice, and the win is read off
  the face. The constant is the float \<open>0.4\<close>, the number
  3602879701896397 / \<open>2 ^ 53\<close>. Of the \<open>2 ^ 53\<close> equally likely values
  of \<open>random.random()\<close> exactly 3602879701896397 make the player win and the other
  5404319552844595 make the bot win: the player wins with probability
  3602879701896397 / \<open>2 ^ 53\<close>, which is \<open>0.4\<close> as a float, and the house with
  the rest.
\<close>

theorem coin_flip_decided_by_threshold:
  assumes "coin_games s = Some cg" and "cg (cq_chat q, cq_user q) = Some game"
    and "cq_message_id q = cg_match_message_id game"
    and "cg_choice game = c" and "c = ''heads'' \<or> c = ''tails''"
  shows "(\<exists>s'. coin_button_handler C_flip r io q s =
            Inr (if r < PLAYER_WIN_PROB then Coin_won c
                 else Coin_lost (if c = ''heads'' then ''tails'' else ''heads''), s'))
     \<and> PLAYER_WIN_PROB = 3602879701896397 / 2 ^ 53
     \<and> card {k. k < 2 ^ 53
              \<and> (\<exists>s'. coin_button_handler C_flip (random_float k) io q s
                         = Inr (Coin_won c, s'))} = 3602879701896397
     \<and> card {k. k < 2 ^ 53
              \<and> (\<exists>s'. coin_button_handler C_flip (random_float k) io q s
                         = Inr (Coin_lost (if c = ''heads'' then ''tails'' else ''heads''), s'))}
         = 5404319552844595"
proof -
  have reply: "\<And>r. \<exists>s'. coin_button_handler C_flip r io q s =
      Inr (if r < PLAYER_WIN_PROB then Coin_won c
           else Coin_lost (if c = ''heads'' then ''tails'' else ''heads''), s')"
    using coin_flip_reply [OF assms] .
  have won: "(\<exists>s'. coin_button_handler C_flip (random_float k) io q s = Inr (Coin_won c, s'))
      \<longleftrightarrow> k < 3602879701896397" for k
    using reply [of "random_float k"] random_float_wins [of k] by (auto split: if_splits)
  have lost: "(\<exists>s'. coin_button_handler C_flip (random_float k) io q s
                 = Inr (Coin_lost (if c = ''heads'' then ''tails'' else ''heads''), s'))
      \<longleftrightarrow> \<not> k < 3602879701896397" for k
    using reply [of "random_float k"] random_float_wins [of k] by (auto split: if_splits)
  have "{k::nat. k < 2 ^ 53 \<and> k < 3602879701896397} = {..<3602879701896397}"
    by auto
  then have c1: "card {k::nat. k < 2 ^ 53 \<and> k < 3602879701896397} = 3602879701896397"
    by simp
  have "{k::nat. k < 2 ^ 53 \<and> \<not> k < 3602879701896397} = {3602879701896397..<2 ^ 53}"
    by auto
  then have c2: "card {k::nat. k < 2 ^ 53 \<and> \<not> k < 3602879701896397} = 5404319552844595"
    by simp
  have p: "PLAYER_WIN_PROB = 3602879701896397 / 2 ^ 53"
    by (simp add: PLAYER_WIN_PROB_value)
  show ?thesis
    using reply [of r] c1 c2 p by (simp add: won lost)
qed

text \<open>
  A run of C9: user 7 has a coin game on heads (message 200). With the draw
  \<open>2 ^ 51 / 2 ^ 53\<close> (a quarter) the coin lands on heads and the player wins.
\<close>

theorem coin_flip_decided_by_threshold_witness:
  "\<exists>s'. coin_button_handler C_flip (random_float (2 ^ 51))
           \<lparr>io_message_id = 201, io_dice = None, io_bot_dice = (\<lambda>_. None)\<rparr>
           \<lparr>cq_user = 7, cq_chat = 1, cq_message_id = 200\<rparr> two_sessions
         = Inr (Coin_won ''heads'', s')"
proof -
  let ?q = "\<lparr>cq_user = 7, cq_chat = 1, cq_message_id = 200\<rparr>"
  let ?game = "\<lparr>cg_bet = 5, cg_choice = ''heads'', cg_match_message_id = 200\<rparr>"
  have h1: "coin_games two_sessions = Some [(1, 7) \<mapsto> ?game]"
    and h2: "[(1, 7) \<mapsto> ?game] (cq_chat ?q, cq_user ?q) = Some ?game"
    and h3: "cq_message_id ?q = cg_match_message_id ?game"
    and h4: "cg_choice ?game = ''heads''"
    and h5: "''heads'' = ''heads'' \<or> ''heads'' = ''tails''"
    by (simp_all add: two_sessions_def)
  have r: "random_float (2 ^ 51) < PLAYER_WIN_PROB"
    by (simp add: random_float_wins)
  from coin_flip_decided_by_threshold [OF h1 h2 h3 h4 h5, of "random_float (2 ^ 51)"
      "\<lparr>io_message_id = 201, io_dice = None, io_bot_dice = (\<lambda>_. None)\<rparr>"]
  show ?thesis
    using r by simp
qed
section \<open>Accepting a challenge\<close>

text \<open>
  Claim C10. Accepting a pending human-vs-human challenge (darts or football) debits the
  full wager from both participants as soon as the challenge exists, the responder is
  the challenged user and neither of the two has a registered session: each balance
  becomes the float \<open>balance - wager\<close>. No hypothesis bounds the wager by a balance,
  and the balance after the debit is negative exactly when the balance before was below
  the wager. (The two users are distinct and have accounts, as the proposal checks.)
\<close>

theorem accept_debits_without_balance_check:
  assumes "map_of (pending_challenges s) gid = Some c"
    and "cq_user q = ch_challenged c"
    and "user_games s (cq_chat q, ch_initiator c) = None"
    and "user_games s (cq_chat q, ch_challenged c) = None"
    and "ch_initiator c \<noteq> ch_challenged c"
    and "users s (ch_initiator c) \<noteq> None"
    and "users s (ch_challenged c) \<noteq> None"
    and "accept = dart_accept \<or> accept = football_accept"
  shows "\<exists>s'. accept q gid io s = Inr (Match_started, s')
     \<and> get_user_balance (ch_initiator c) s'
          = float_sub (get_user_balance (ch_initiator c) s) (ch_bet c)
     \<and> get_user_balance (ch_challenged c) s'
          = float_sub (get_user_balance (ch_challenged c) s) (ch_bet c)
     \<and> (get_user_balance (ch_initiator c) s' < 0) = (get_user_balance (ch_initiator c) s < ch_bet c)
     \<and> (get_user_balance (ch_challenged c) s' < 0) = (get_user_balance (ch_challenged c) s < ch_bet c)
     \<and> user_games s' (cq_chat q, ch_initiator c) = Some (cq_chat q, ch_initiator c, User (ch_challenged c))
     \<and> user_games s' (cq_chat q, ch_challenged c) = Some (cq_chat q, ch_initiator c, User (ch_challenged c))"
  using assms
  by (auto simp: dart_accept_def football_accept_def Let_def update_user_balance_def
       get_user_balance_def store_game_def del_challenge_def map_user_data_def
       float_sub_neg_iff)

text \<open>
  A run of C10: user 7 (balance 1) has challenged user 8 (balance 2) for a wager of 5.
  User 8 accepts; the balances become -4 and -3.
\<close>

theorem accept_debits_without_balance_check_witness:
  "\<exists>s'. dart_accept \<lparr>cq_user = 8, cq_chat = 1, cq_message_id = 50\<rparr> 1
           \<lparr>io_message_id = 100, io_dice = None, io_bot_dice = (\<lambda>_. None)\<rparr>
           ((fresh_store [7 \<mapsto> 1, 8 \<mapsto> 2])\<lparr>pending_challenges :=
              [(1, \<lparr>ch_initiator = 7, ch_challenged = 8, ch_mode = ''normal'',
                    ch_points_to_win = 1, ch_bet = 5\<rparr>)]\<rparr>)
         = Inr (Match_started, s')
       \<and> get_user_balance 7 s' = - 4 \<and> get_user_balance 8 s' = - 3"
proof -
  let ?c = "\<lparr>ch_initiator = 7, ch_challenged = 8, ch_mode = ''normal'',
             ch_points_to_win = 1, ch_bet = 5\<rparr>"
  let ?s = "(fresh_store [7 \<mapsto> 1, 8 \<mapsto> 2])\<lparr>pending_challenges := [(1, ?c)]\<rparr>"
  let ?q = "\<lparr>cq_user = 8, cq_chat = 1, cq_message_id = 50\<rparr>"
  have b: "get_user_balance 7 ?s = 1" "get_user_balance 8 ?s = 2"
    by (simp_all add: get_user_balance_def fresh_store_def)
  have "map_of (pending_challenges ?s) 1 = Some ?c" by simp
  moreover have "cq_user ?q = ch_challenged ?c" by simp
  moreover have "user_games ?s (cq_chat ?q, ch_initiator ?c) = None"
     "user_games ?s (cq_chat ?q, ch_challenged ?c) = None"
    by (simp_all add: fresh_store_def)
  moreover have "ch_initiator ?c \<noteq> ch_challenged ?c" by simp
  moreover have "users ?s (ch_initiator ?c) \<noteq> None" "users ?s (ch_challenged ?c) \<noteq> None"
    by (simp_all add: fresh_store_def)
  ultimately show ?thesis
    using accept_debits_without_balance_check
      [of ?s 1 ?c ?q dart_accept "\<lparr>io_message_id = 100, io_dice = None, io_bot_dice = (\<lambda>_. None)\<rparr>"]
    by (fastforce simp: b float_values)
qed

section \<open>Drawn rounds\<close>

text \<open>
  Claim C7. When the two complete outcome buffers of a running darts match give equal
  scores under the mode's rule, the round evaluation increments neither score, clears
  both buffers and both counts, gives the turn to slot 1 and increments the round
  number: the stored game differs from the evaluated one in these fields and the prompt
  message id only.
\<close>

theorem draw_round_repeats:
  assumes "rolls_needed g \<le> int (length (rolls g Player1))"
    and "rolls_needed g \<le> int (length (rolls g Player2))"
    and "dart_round_scores (mode g) (rolls g Player1) (rolls g Player2) = Inr (a, a)"
    and "scores g Player1 < points_to_win g"
    and "scores g Player2 < points_to_win g"
  shows "evaluate_round g chat k new_mid s =
           Inr (Round_results,
                s\<lparr>games := (games s)(k \<mapsto>
                    g\<lparr>rolls := (\<lambda>_. []), roll_count := (\<lambda>_. 0), current_player := Player1,
                      round_number := round_number g + 1, message_id := Some new_mid\<rparr>)\<rparr>)"
  using assms
  by (simp add: evaluate_round_def award_def match_over_def next_round_def reset_round_def
       max_def)

text \<open>
  The example of the specification: mode double, A threw 3 and 5, B threw 4 and 4; both
  sums are 8.
\<close>

theorem draw_round_repeats_witness:
  "dart_round_scores ''double'' [3, 5] [4, 4] = Inr (8, 8)
   \<and> (let g = (new_game 7 (User 8) ''double'' 2 10)\<lparr>rolls := (\<lambda>_. [4, 4])(Player1 := [3, 5]),
                 roll_count := (\<lambda>_. 2), current_player := Player2, message_id := Some 100\<rparr>
      in evaluate_round g 1 (1, 7, User 8) 101 (fresh_store Map.empty) =
           Inr (Round_results,
                (fresh_store Map.empty)\<lparr>games := (games (fresh_store Map.empty))((1, 7, User 8) \<mapsto>
                    g\<lparr>rolls := (\<lambda>_. []), roll_count := (\<lambda>_. 0), current_player := Player1,
                      round_number := 2, message_id := Some 101\<rparr>)\<rparr>))"
proof -
  let ?g = "(new_game 7 (User 8) ''double'' 2 10)\<lparr>rolls := (\<lambda>_. [4, 4])(Player1 := [3, 5]),
                 roll_count := (\<lambda>_. 2), current_player := Player2, message_id := Some 100\<rparr>"
  have sc: "dart_round_scores (mode ?g) (rolls ?g Player1) (rolls ?g Player2) = Inr (8, 8)"
    by (simp add: dart_round_scores_def new_game_def)
  have "rolls_needed ?g \<le> int (length (rolls ?g Player1))"
       "rolls_needed ?g \<le> int (length (rolls ?g Player2))"
       "scores ?g Player1 < points_to_win ?g" "scores ?g Player2 < points_to_win ?g"
    by (simp_all add: new_game_def)
  from draw_round_repeats [OF this(1) this(2) sc this(3) this(4),
      of 1 "(1, 7, User 8)" 101 "fresh_store Map.empty"]
  show ?thesis
    by (simp add: dart_round_scores_def new_game_def Let_def)
qed

section \<open>The end of a match\<close>





section \<open>Playing again without funds\<close>

text \<open>
  The sibling of the play-again branch: the double branch compares the new bet with the
  balance before it starts the match against the bot (\<open>darts.py\<close> lines 487-490).
\<close>

lemma double_checks_balance:
  assumes "last_games s (cq_chat q, cq_user q) = Some lg" and "lg_opponent lg = Bot"
    and "float_mul (lg_bet lg) 2 > get_user_balance (cq_user q) s"
  shows "dart_double q io s = Inr (Insufficient_balance, s)"
  using assms by (simp add: dart_double_def Let_def)

text \<open>
  Claim C8, at a failing input. User 7 has balance 3; the last game was against the bot
  for a bet of 5. Pressing "Play Again" starts the match: no balance is compared with
  the bet, the session is registered and the balance becomes -2. The claim says the
  press is rejected for insufficient balance, with no debit and no session.
\<close>

theorem play_again_starts_without_funds:
  "\<exists>s'. dart_play_again \<lparr>cq_user = 7, cq_chat = 1, cq_message_id = 50\<rparr>
           \<lparr>io_message_id = 100, io_dice = None, io_bot_dice = (\<lambda>_. None)\<rparr>
           rematch_low_balance
         = Inr (Match_started, s')
       \<and> get_user_balance 7 rematch_low_balance = 3
       \<and> get_user_balance 7 s' = - 2
       \<and> user_games s' (1, 7) = Some (1, 7, Bot)
       \<and> map_option bet (games s' (1, 7, Bot)) = Some 5"
  by (simp add: rematch_low_balance_def handler_defs Let_def float_values)

section \<open>Challenge ids\<close>

text \<open>
  Claim C6, at a failing input. Users 10 and 20 propose rematches and get the ids 1 and
  2. Challenge 1 is declined. The table now holds challenge 2 only, its length is 1, and
  the next proposal (by user 30) is given the id 2 again: it replaces the pending
  challenge of user 20. The claim says a new id differs from every pending id.
\<close>

theorem challenge_id_reused:
  "\<exists>s1 s2 s3 s4.
     dart_play_again \<lparr>cq_user = 10, cq_chat = 1, cq_message_id = 50\<rparr> io three_rematches
       = Inr (Challenge_sent, s1)
   \<and> dart_play_again \<lparr>cq_user = 20, cq_chat = 1, cq_message_id = 51\<rparr> io s1
       = Inr (Challenge_sent, s2)
   \<and> map (\<lambda>(i, c). (i, ch_initiator c, ch_challenged c)) (pending_challenges s2)
       = [(1, 10, 11), (2, 20, 21)]
   \<and> dart_decline 1 s2 = Inr (Challenge_declined, s3)
   \<and> map (\<lambda>(i, c). (i, ch_initiator c, ch_challenged c)) (pending_challenges s3)
       = [(2, 20, 21)]
   \<and> next_game_id s3 = 2
   \<and> dart_play_again \<lparr>cq_user = 30, cq_chat = 1, cq_message_id = 52\<rparr> io s3
       = Inr (Challenge_sent, s4)
   \<and> map (\<lambda>(i, c). (i, ch_initiator c, ch_challenged c)) (pending_challenges s4)
       = [(2, 30, 31)]"
  by (simp add: three_rematches_def handler_defs Let_def)

section \<open>Stale buttons\<close>

text \<open>
  The handler on its own rejects a throw from a message that is not the current prompt,
  and changes nothing (\<open>darts.py\<close> lines 314-317).
\<close>

lemma stale_anchor_rejected_by_handler:
  assumes "dart_setup (user_data s (cq_user q)) = None"
    and "user_games s (cq_chat q, cq_user q) = Some k"
    and "games s k = Some g"
    and "message_id g \<noteq> Some (cq_message_id q)"
  shows "dart_button_handler (D_throw n) io q s = Inr (Not_current_message, s)"
  using assms by (auto simp: dart_button_handler_def dart_throw_def)

text \<open>
  Claim C3, at a failing input. Users 7 and 8 play a double-throw match; the prompt is
  message 100. User 7 throws from message 100 (a 3); the prompt moves to message 101.
  User 7 presses the button of message 100 again. The handler alone rejects the press
  and changes nothing. The handler as registered in \<open>main.py\<close> is wrapped by
  \<open>with_game_ownership_check\<close>, which first overwrites the game's message id with the id
  of the pressed message: the press is accepted, a second outcome is appended to the
  buffer and the turn passes on. The claim says the press is rejected without a change.
\<close>

theorem stale_button_counts_twice:
  "\<exists>s1 s2 s3.
     dart_button_handler (D_accept 1)
        \<lparr>io_message_id = 100, io_dice = None, io_bot_dice = (\<lambda>_. None)\<rparr>
        \<lparr>cq_user = 8, cq_chat = 1, cq_message_id = 50\<rparr> pending_double_duel
       = Inr (Match_started, s1)
   \<and> registered_dart_handler (D_throw 1)
        \<lparr>io_message_id = 101, io_dice = Some 3, io_bot_dice = (\<lambda>_. None)\<rparr>
        \<lparr>cq_user = 7, cq_chat = 1, cq_message_id = 100\<rparr> s1 = Inr (Throw_again, s2)
   \<and> map_option message_id (games s2 (1, 7, User 8)) = Some (Some 101)
   \<and> map_option (\<lambda>g. rolls g Player1) (games s2 (1, 7, User 8)) = Some [3]
   \<and> dart_button_handler (D_throw 1)
        \<lparr>io_message_id = 102, io_dice = Some 5, io_bot_dice = (\<lambda>_. None)\<rparr>
        \<lparr>cq_user = 7, cq_chat = 1, cq_message_id = 100\<rparr> s2 = Inr (Not_current_message, s2)
   \<and> registered_dart_handler (D_throw 1)
        \<lparr>io_message_id = 102, io_dice = Some 5, io_bot_dice = (\<lambda>_. None)\<rparr>
        \<lparr>cq_user = 7, cq_chat = 1, cq_message_id = 100\<rparr> s2 = Inr (Your_turn, s3)
   \<and> map_option (\<lambda>g. rolls g Player1) (games s3 (1, 7, User 8)) = Some [3, 5]
   \<and> map_option (\<lambda>g. roll_count g Player1) (games s3 (1, 7, User 8)) = Some 2"
  by (simp add: pending_double_duel_def handler_defs Let_def)

section \<open>Starting a match against the bot\<close>

text \<open>
  Only the end of a match touches balances and summaries: a round evaluation, a throw
  or a press of the throw button that does not answer with the game-over message leaves
  both as they were.
\<close>

lemma finish_match_reply:
  "finish_match g chat k s = Inr (r, s') \<Longrightarrow> r = Game_over"
  by (auto simp: finish_match_def split: sum.splits)

lemma evaluate_round_frame:
  assumes "evaluate_round g chat k mid s = Inr (r, s')" and "r \<noteq> Game_over"
  shows "users s' = users s \<and> last_games s' = last_games s"
  using assms
  by (auto simp: evaluate_round_def next_round_def store_game_def Let_def
      dest: finish_match_reply split: if_splits sum.splits prod.splits)

lemma after_throw_frame:
  assumes "after_throw g pk v chat k io s = Inr (r, s')" and "r \<noteq> Game_over"
  shows "users s' = users s \<and> last_games s' = last_games s"
  using assms
  by (auto simp: after_throw_def store_game_def Let_def
      dest: evaluate_round_frame split: if_splits option.splits)

lemma dart_throw_frame:
  assumes "dart_throw q n io s = Inr (r, s')" and "r \<noteq> Game_over"
  shows "users s' = users s \<and> last_games s' = last_games s"
  using assms
  by (auto simp: dart_throw_def dest: after_throw_frame split: if_splits option.splits)

lemma football_evaluate_round_frame:
  assumes "football_evaluate_round g chat k mid s = Inr (r, s')" and "r \<noteq> Game_over"
  shows "users s' = users s \<and> last_games s' = last_games s"
  using assms
  by (auto simp: football_evaluate_round_def next_round_def store_game_def Let_def
      dest: finish_match_reply split: if_splits sum.splits prod.splits option.splits)

lemma football_after_shot_frame:
  assumes "football_after_shot g pk v chat k io s = Inr (r, s')" and "r \<noteq> Game_over"
  shows "users s' = users s \<and> last_games s' = last_games s"
  using assms
  by (auto simp: football_after_shot_def store_game_def Let_def
      dest: football_evaluate_round_frame split: if_splits option.splits)

lemma football_take_shot_frame:
  assumes "football_take_shot q n io s = Inr (r, s')" and "r \<noteq> Game_over"
  shows "users s' = users s \<and> last_games s' = last_games s"
  using assms
  by (auto simp: football_take_shot_def dest: football_after_shot_frame
      split: if_splits option.splits)

lemma dart_handler_throw_frame:
  assumes "dart_button_handler (D_throw n) io q s = Inr (r, s')" and "r \<noteq> Game_over"
  shows "users s' = users s \<and> last_games s' = last_games s"
  using assms
  by (auto simp: dart_button_handler_def dart_setup_phase_def dest: dart_throw_frame
      split: option.splits if_splits)

lemma football_handler_shot_frame:
  assumes "football_button_handler (F_take_shot n) io q s = Inr (r, s')"
    and "r \<noteq> Game_over"
  shows "users s' = users s \<and> last_games s' = last_games s"
  using assms
  by (auto simp: football_button_handler_def football_setup_phase_def
      dest: football_take_shot_frame split: option.splits if_splits)

lemma wrapper_frame:
  assumes "with_game_ownership_check h kg True q s = Inr (r, s')" and "r \<noteq> Game_over"
    and "\<And>s1 s2. h q s1 = Inr (r, s2) \<Longrightarrow>
           users s2 = users s1 \<and> last_games s2 = last_games s1"
  shows "users s' = users s \<and> last_games s' = last_games s"
  using assms(1) assms(3)
  by (fastforce simp: with_game_ownership_check_def Let_def store_game_def
      split: option.splits if_splits)

lemma throw_button_frame:
  assumes "throw_button v registered n io q s = Inr (r, s')" and "r \<noteq> Game_over"
  shows "users s' = users s \<and> last_games s' = last_games s"
proof (cases v)
  case Darts
  show ?thesis
  proof (cases registered)
    case True
    then have "with_game_ownership_check (dart_button_handler (D_throw n) io) (\<lambda>_. None)
        True q s = Inr (r, s')"
      using assms(1) Darts by (simp add: throw_button_def registered_dart_handler_def)
    then show ?thesis
      using wrapper_frame [OF _ assms(2)] dart_handler_throw_frame [OF _ assms(2)] by blast
  next
    case False
    then show ?thesis
      using assms Darts dart_handler_throw_frame by (simp add: throw_button_def)
  qed
next
  case Football
  show ?thesis
  proof (cases registered)
    case True
    then have "with_game_ownership_check (football_button_handler (F_take_shot n) io)
        (\<lambda>_. None) True q s = Inr (r, s')"
      using assms(1) Football by (simp add: throw_button_def registered_football_handler_def)
    then show ?thesis
      using wrapper_frame [OF _ assms(2)] football_handler_shot_frame [OF _ assms(2)] by blast
  next
    case False
    then show ?thesis
      using assms Football football_handler_shot_frame by (simp add: throw_button_def)
  qed
qed

text \<open>
  The coin game has no escrow: starting the match registers the game and leaves every
  balance as it is; the flip settles the bet in one update of the balance and removes
  the game.
\<close>

lemma coin_bot_frame:
  assumes "coin_bot cs q s = Inr (r, s')"
  shows "users s' = users s \<and> in_coin_game (cq_chat q, cq_user q) s'"
  using assms
  by (auto simp: coin_bot_def map_user_data_def in_coin_game_def Let_def split: option.splits)

lemma coin_flip_settles:
  assumes "coin_games s = Some cg" and "cg (cq_chat q, cq_user q) = Some game"
    and "cq_message_id q = cg_match_message_id game"
    and "cg_choice game = ''heads'' \<or> cg_choice game = ''tails''"
    and "users s (cq_user q) \<noteq> None"
  shows "\<exists>s' rep. coin_flip q r s = Inr (rep, s')
     \<and> get_user_balance (cq_user q) s' =
          (if r < PLAYER_WIN_PROB
           then float_sub (float_add (get_user_balance (cq_user q) s)
                             (float_mul (cg_bet game) float_1_92)) (cg_bet game)
           else float_sub (get_user_balance (cq_user q) s) (cg_bet game))
     \<and> (\<forall>u. u \<noteq> cq_user q \<longrightarrow> get_user_balance u s' = get_user_balance u s)
     \<and> \<not> in_coin_game (cq_chat q, cq_user q) s'"
  using assms
  by (auto simp: coin_flip_def coin_result_def Let_def map_user_data_def
      update_user_balance_def get_user_balance_def in_coin_game_def)

lemma start_bot_match_debits:
  assumes "user_games s (chat, u) = None"
    and "setup_of v (user_data s u) = Some su"
    and "mode_of v (user_data s u) = Some m"
    and "points_of v (user_data s u) = Some pts"
    and "users s u \<noteq> None"
  shows "\<exists>s'. start_bot_match v chat u new_mid s = Inr (Match_started, s')
       \<and> get_user_balance u s' = float_sub (get_user_balance u s) (su_bet su)
       \<and> (\<forall>x. x \<noteq> u \<longrightarrow> get_user_balance x s' = get_user_balance x s)
       \<and> last_games s' = last_games s
       \<and> user_games s' (chat, u) = Some (chat, u, Bot)
       \<and> (\<exists>g. games s' (chat, u, Bot) = Some g \<and> bet g = su_bet su \<and> player2 g = Bot
              \<and> rolls g Player1 = [] \<and> rolls g Player2 = []
              \<and> scores g Player1 = 0 \<and> scores g Player2 = 0)"
  using assms
  by (cases v)
    (auto simp: start_bot_match_def setup_of_def mode_of_def points_of_def
      start_game_against_bot_def football_start_game_against_bot_def Let_def
      update_user_balance_def get_user_balance_def store_game_def map_user_data_def
      new_game_def)

text \<open>
  Claim C5, amended. For every wager w with 0 < w \<le> balance, starting a darts or a
  football match against the bot debits w from the initiator, and from nobody else, at
  the start: the balance becomes the float \<open>balance - w\<close>, which is the number
  balance - w but for the rounding of the subtraction, the registered game has empty
  outcome buffers and scores 0, and no summary of a last game is written. No
  later press of the throw button changes a balance or a summary unless it ends the
  match, so the debit happens once and the summary is written at the end only. In the
  coin-flip game starting the match against the bot debits nothing: it registers the
  game and leaves the balances unchanged. The wager of the coin game is settled in one
  update of the balance at the flip: the balance becomes the float
  \<open>balance + w * 1.92 - w\<close> when the player wins and \<open>balance - w\<close> when the bot wins,
  no other balance changes, and the game is removed.
\<close>

theorem bot_match_debits_once_at_start:
  assumes "user_games s (chat, u) = None"
    and "setup_of v (user_data s u) = Some su"
    and "mode_of v (user_data s u) = Some m"
    and "points_of v (user_data s u) = Some pts"
    and "0 < su_bet su" and "su_bet su \<le> get_user_balance u s"
  shows "(\<exists>s'. start_bot_match v chat u new_mid s = Inr (Match_started, s')
       \<and> get_user_balance u s' = float_sub (get_user_balance u s) (su_bet su)
       \<and> \<bar>get_user_balance u s' - (get_user_balance u s - su_bet su)\<bar>
           \<le> (get_user_balance u s - su_bet su) / 2 ^ 53
       \<and> (\<forall>x. x \<noteq> u \<longrightarrow> get_user_balance x s' = get_user_balance x s)
       \<and> last_games s' = last_games s
       \<and> user_games s' (chat, u) = Some (chat, u, Bot)
       \<and> (\<exists>g. games s' (chat, u, Bot) = Some g \<and> bet g = su_bet su \<and> player2 g = Bot
              \<and> rolls g Player1 = [] \<and> rolls g Player2 = []
              \<and> scores g Player1 = 0 \<and> scores g Player2 = 0))
     \<and> (\<forall>registered q n io s1 r s2.
            throw_button v registered n io q s1 = Inr (r, s2) \<and> r \<noteq> Game_over
            \<longrightarrow> users s2 = users s1 \<and> last_games s2 = last_games s1)
     \<and> (\<forall>cs q s1 r s2. coin_bot cs q s1 = Inr (r, s2)
            \<longrightarrow> users s2 = users s1 \<and> in_coin_game (cq_chat q, cq_user q) s2)
     \<and> (\<forall>q r cg game s1.
            coin_games s1 = Some cg \<and> cg (cq_chat q, cq_user q) = Some game
            \<and> cq_message_id q = cg_match_message_id game
            \<and> (cg_choice game = ''heads'' \<or> cg_choice game = ''tails'')
            \<and> users s1 (cq_user q) \<noteq> None
            \<longrightarrow> (\<exists>s2 rep. coin_flip q r s1 = Inr (rep, s2)
                  \<and> get_user_balance (cq_user q) s2 =
                      (if r < PLAYER_WIN_PROB
                       then float_sub (float_add (get_user_balance (cq_user q) s1)
                                         (float_mul (cg_bet game) float_1_92)) (cg_bet game)
                       else float_sub (get_user_balance (cq_user q) s1) (cg_bet game))
                  \<and> (\<forall>x. x \<noteq> cq_user q \<longrightarrow> get_user_balance x s2 = get_user_balance x s1)
                  \<and> \<not> in_coin_game (cq_chat q, cq_user q) s2))"
proof -
  have reg: "users s u \<noteq> None"
    using assms(5,6) by (auto simp: get_user_balance_def split: option.splits)
  have throws: "\<forall>registered q n io s1 r s2.
            throw_button v registered n io q s1 = Inr (r, s2) \<and> r \<noteq> Game_over
            \<longrightarrow> users s2 = users s1 \<and> last_games s2 = last_games s1"
    using throw_button_frame by blast
  have coin_start: "\<forall>cs q s1 r s2. coin_bot cs q s1 = Inr (r, s2)
            \<longrightarrow> users s2 = users s1 \<and> in_coin_game (cq_chat q, cq_user q) s2"
    using coin_bot_frame by blast
  have flip: "\<forall>q r cg game s1.
            coin_games s1 = Some cg \<and> cg (cq_chat q, cq_user q) = Some game
            \<and> cq_message_id q = cg_match_message_id game
            \<and> (cg_choice game = ''heads'' \<or> cg_choice game = ''tails'')
            \<and> users s1 (cq_user q) \<noteq> None
            \<longrightarrow> (\<exists>s2 rep. coin_flip q r s1 = Inr (rep, s2)
                  \<and> get_user_balance (cq_user q) s2 =
                      (if r < PLAYER_WIN_PROB
                       then float_sub (float_add (get_user_balance (cq_user q) s1)
                                         (float_mul (cg_bet game) float_1_92)) (cg_bet game)
                       else float_sub (get_user_balance (cq_user q) s1) (cg_bet game))
                  \<and> (\<forall>x. x \<noteq> cq_user q \<longrightarrow> get_user_balance x s2 = get_user_balance x s1)
                  \<and> \<not> in_coin_game (cq_chat q, cq_user q) s2)"
    by (intro allI impI, elim conjE, rule coin_flip_settles)
  from start_bot_match_debits [OF assms(1-4) reg, of new_mid]
  obtain s' where s': "start_bot_match v chat u new_mid s = Inr (Match_started, s')"
    and bal: "get_user_balance u s' = float_sub (get_user_balance u s) (su_bet su)"
    and rest: "(\<forall>x. x \<noteq> u \<longrightarrow> get_user_balance x s' = get_user_balance x s)
       \<and> last_games s' = last_games s
       \<and> user_games s' (chat, u) = Some (chat, u, Bot)
       \<and> (\<exists>g. games s' (chat, u, Bot) = Some g \<and> bet g = su_bet su \<and> player2 g = Bot
              \<and> rolls g Player1 = [] \<and> rolls g Player2 = []
              \<and> scores g Player1 = 0 \<and> scores g Player2 = 0)"
    by blast
  have close: "\<bar>get_user_balance u s' - (get_user_balance u s - su_bet su)\<bar>
           \<le> (get_user_balance u s - su_bet su) / 2 ^ 53"
    using float_sub_close [of "get_user_balance u s" "su_bet su"] assms(6)
    by (simp add: bal)
  have start: "\<exists>s'. start_bot_match v chat u new_mid s = Inr (Match_started, s')
       \<and> get_user_balance u s' = float_sub (get_user_balance u s) (su_bet su)
       \<and> \<bar>get_user_balance u s' - (get_user_balance u s - su_bet su)\<bar>
           \<le> (get_user_balance u s - su_bet su) / 2 ^ 53
       \<and> (\<forall>x. x \<noteq> u \<longrightarrow> get_user_balance x s' = get_user_balance x s)
       \<and> last_games s' = last_games s
       \<and> user_games s' (chat, u) = Some (chat, u, Bot)
       \<and> (\<exists>g. games s' (chat, u, Bot) = Some g \<and> bet g = su_bet su \<and> player2 g = Bot
              \<and> rolls g Player1 = [] \<and> rolls g Player2 = []
              \<and> scores g Player1 = 0 \<and> scores g Player2 = 0)"
    using s' bal close rest by blast
  show ?thesis
    by (intro conjI start throws coin_start flip)
qed

text \<open>
  A run of C5: balance 10, wager 5; after the start of the darts match the balance
  is 5.
\<close>

theorem bot_match_debits_once_at_start_witness:
  "\<exists>s'. start_game_against_bot 1 7 101 ready_for_bot = Inr (Match_started, s')
     \<and> get_user_balance 7 ready_for_bot = 10
     \<and> get_user_balance 7 s' = 5
     \<and> last_games s' = last_games ready_for_bot
     \<and> user_games s' (1, 7) = Some (1, 7, Bot)"
proof -
  let ?s = ready_for_bot
  let ?su = "\<lparr>su_initiator = 7, su_bet = 5, su_message_id = Some 100\<rparr>"
  have b: "get_user_balance 7 ?s = 10"
    by (simp add: ready_for_bot_def map_user_data_def fresh_store_def get_user_balance_def)
  have h1: "user_games ?s (1, 7) = None"
    and h2: "setup_of Darts (user_data ?s 7) = Some ?su"
    and h3: "mode_of Darts (user_data ?s 7) = Some ''normal''"
    and h4: "points_of Darts (user_data ?s 7) = Some 1"
    by (simp_all add: ready_for_bot_def map_user_data_def fresh_store_def setup_of_def
        mode_of_def points_of_def)
  have h5: "0 < su_bet ?su" and h6: "su_bet ?su \<le> get_user_balance 7 ?s"
    by (simp_all add: b)
  from bot_match_debits_once_at_start [OF h1 h2 h3 h4 h5 h6, of 101, THEN conjunct1]
  show ?thesis
    by (auto simp: b start_bot_match_def float_values)
qed

text \<open>
  Claim C5 as stated fails for the coin flip: user 7 has balance 10 and sets up a coin
  game for a wager of 5; after "Play vs Bot" the game is registered and the balance is
  still 10, not the 5 that a debit of the wager would leave.
\<close>

theorem coin_bot_match_starts_without_debit:
  "\<exists>s1 s2 s3.
     coin_command 1 7 5 100 (fresh_store [7 \<mapsto> 10]) = Inr (Choose_side, s1)
   \<and> coin_button_handler C_heads 0
        \<lparr>io_message_id = 101, io_dice = None, io_bot_dice = (\<lambda>_. None)\<rparr>
        \<lparr>cq_user = 7, cq_chat = 1, cq_message_id = 100\<rparr> s1 = Inr (Confirmation, s2)
   \<and> (0::rat) < 5 \<and> 5 \<le> get_user_balance 7 s2
   \<and> coin_button_handler C_bot 0
        \<lparr>io_message_id = 101, io_dice = None, io_bot_dice = (\<lambda>_. None)\<rparr>
        \<lparr>cq_user = 7, cq_chat = 1, cq_message_id = 100\<rparr> s2 = Inr (Flip_prompt, s3)
   \<and> in_coin_game (1, 7) s3
   \<and> get_user_balance 7 s2 = 10
   \<and> get_user_balance 7 s3 = 10
   \<and> float_sub (get_user_balance 7 s2) 5 = 5
   \<and> get_user_balance 7 s3 \<noteq> float_sub (get_user_balance 7 s2) 5"
  by (simp add: coin_command_def coin_button_handler_def coin_bot_def own_coin_setup_def
      in_coin_game_def user_exists_def get_user_balance_def map_user_data_def fresh_store_def
      no_user_data_def Let_def float_values)

section \<open>One session per participant and registry\<close>

text \<open>
  Claim C2, amended. Darts and football register their sessions in \<open>user_games\<close>; the
  coin flip registers its games in \<open>coin_games\<close>. For a participant with an entry in
  \<open>user_games\<close> for this chat, starting a match against the bot is refused with
  "already in a game", the darts command is refused, a proposal (typed, play-again or
  double) that names the participant as opponent is refused and stores no challenge,
  and accepting a challenge that involves the participant starts no match; each of
  them leaves the store unchanged. For a participant with a coin game, the coin command
  is refused with "already in a game". The check is per registry: nothing here relates
  \<open>user_games\<close> to \<open>coin_games\<close>.
\<close>

theorem busy_participant_rejected_per_registry:
  "(user_games s (chat, u) \<noteq> None \<longrightarrow>
      start_game_against_bot chat u mid s = Inr (Already_in_game, s)
    \<and> (\<exists>r. dart_command chat u amount mid s = Inr (r, s) \<and> r \<noteq> Choose_mode)
    \<and> (\<exists>r. dart_text_handler chat i at_sign (Some u) s = Inr (r, s) \<and> r \<noteq> Challenge_sent)
    \<and> (\<forall>q io lg. cq_chat q = chat \<and> last_games s (chat, cq_user q) = Some lg
            \<and> lg_opponent lg = User u
          \<longrightarrow> dart_play_again q io s = Inr (Opponent_in_game, s)
            \<and> (\<exists>r. dart_double q io s = Inr (r, s) \<and> r \<noteq> Challenge_sent))
    \<and> (\<forall>q gid io c. cq_chat q = chat \<and> map_of (pending_challenges s) gid = Some c
            \<and> (ch_initiator c = u \<or> cq_user q = u)
          \<longrightarrow> (\<exists>r. dart_accept q gid io s = Inr (r, s) \<and> r \<noteq> Match_started)
            \<and> (\<exists>r. football_accept q gid io s = Inr (r, s) \<and> r \<noteq> Match_started)))
   \<and> (in_coin_game (chat, u) s \<longrightarrow> coin_command chat u amount mid s = Inr (Already_in_game, s))"
  by (auto simp: start_game_against_bot_def dart_command_def dart_text_handler_def
      dart_play_again_def dart_double_def dart_accept_def football_accept_def coin_command_def
      Let_def split: option.splits)

text \<open>
  A run of C2: user 7 holds a darts session and a coin game. A new darts match and a
  new coin command are both refused, and so is user 8's rematch proposal to user 7.
\<close>

theorem busy_participant_rejected_per_registry_witness:
  "user_games two_sessions (1, 7) \<noteq> None
   \<and> in_coin_game (1, 7) two_sessions
   \<and> start_game_against_bot 1 7 300 two_sessions = Inr (Already_in_game, two_sessions)
   \<and> coin_command 1 7 5 300 two_sessions = Inr (Already_in_game, two_sessions)
   \<and> dart_play_again \<lparr>cq_user = 8, cq_chat = 1, cq_message_id = 50\<rparr>
        \<lparr>io_message_id = 300, io_dice = None, io_bot_dice = (\<lambda>_. None)\<rparr> two_sessions
      = Inr (Opponent_in_game, two_sessions)"
proof -
  let ?q = "\<lparr>cq_user = 8, cq_chat = 1, cq_message_id = 50\<rparr>"
  let ?lg = "\<lparr>lg_opponent = User 7, lg_mode = ''normal'', lg_points_to_win = 1, lg_bet = 10\<rparr>"
  have busy: "user_games two_sessions (1, 7) \<noteq> None"
    and coin: "in_coin_game (1, 7) two_sessions"
    and lg: "cq_chat ?q = 1 \<and> last_games two_sessions (1, cq_user ?q) = Some ?lg
             \<and> lg_opponent ?lg = User 7"
    by (simp_all add: two_sessions_def fresh_store_def in_coin_game_def)
  from busy_participant_rejected_per_registry [of two_sessions 1 7 300 5 8 True]
  show ?thesis
    using busy coin lg by blast
qed

text \<open>
  Claim C2 as stated fails across the game variants: user 7 starts a darts match against
  the bot and then, with that session registered, sets up and starts a coin game in the
  same chat. Neither step is refused, and both sessions are registered at the end.
\<close>

theorem second_session_in_other_registry:
  "\<exists>s1 s2 s3 s4 s5 s6 s7.
     dart_command 1 7 10 100 (fresh_store [7 \<mapsto> 100]) = Inr (Choose_mode, s1)
   \<and> dart_button_handler (D_mode ''normal'')
        \<lparr>io_message_id = 101, io_dice = None, io_bot_dice = (\<lambda>_. None)\<rparr>
        \<lparr>cq_user = 7, cq_chat = 1, cq_message_id = 100\<rparr> s1 = Inr (Choose_points, s2)
   \<and> dart_button_handler (D_points 1)
        \<lparr>io_message_id = 101, io_dice = None, io_bot_dice = (\<lambda>_. None)\<rparr>
        \<lparr>cq_user = 7, cq_chat = 1, cq_message_id = 100\<rparr> s2 = Inr (Confirmation, s3)
   \<and> dart_button_handler D_bot
        \<lparr>io_message_id = 101, io_dice = None, io_bot_dice = (\<lambda>_. None)\<rparr>
        \<lparr>cq_user = 7, cq_chat = 1, cq_message_id = 100\<rparr> s3 = Inr (Match_started, s4)
   \<and> user_games s4 (1, 7) = Some (1, 7, Bot)
   \<and> coin_command 1 7 5 200 s4 = Inr (Choose_side, s5)
   \<and> coin_button_handler C_heads 0
        \<lparr>io_message_id = 201, io_dice = None, io_bot_dice = (\<lambda>_. None)\<rparr>
        \<lparr>cq_user = 7, cq_chat = 1, cq_message_id = 200\<rparr> s5 = Inr (Confirmation, s6)
   \<and> coin_button_handler C_bot 0
        \<lparr>io_message_id = 201, io_dice = None, io_bot_dice = (\<lambda>_. None)\<rparr>
        \<lparr>cq_user = 7, cq_chat = 1, cq_message_id = 200\<rparr> s6 = Inr (Flip_prompt, s7)
   \<and> user_games s7 (1, 7) = Some (1, 7, Bot)
   \<and> games s7 (1, 7, Bot) \<noteq> None
   \<and> in_coin_game (1, 7) s7"
  by (simp add: handler_defs dart_command_def dart_setup_phase_def coin_command_def
      coin_button_handler_def coin_bot_def own_coin_setup_def in_coin_game_def user_exists_def
      Let_def float_values)

section \<open>The ledger over the lifetime of a session\<close>

text \<open>
  One settlement: the match-end branch credits the winner of the game and nobody else,
  removes the pointers of the human players and answers with the game-over message.
\<close>

lemma award_fields [simp]:
  "player1 (award a b g) = player1 g" "player2 (award a b g) = player2 g"
  "bet (award a b g) = bet g"
  by (simp_all add: award_def)






text \<open>
  One step of a running session: an evaluated round, a throw, a press of the throw
  button (handled by the handler alone or as registered). Either the session is still
  running and no balance has changed, or it is over and has been settled once.
\<close>

lemma store_game_twice [simp]: "store_game k g' (store_game k g s) = store_game k g' s"
  by (simp add: store_game_def)

lemma store_game_fields [simp]:
  "users (store_game k g s) = users s" "user_games (store_game k g s) = user_games s"
  "last_games (store_game k g s) = last_games s" "games (store_game k g s) k = Some g"
  by (simp_all add: store_game_def)

































end
